theory Spec2Isabelle
  imports Main "HOL-Library.AList"
begin

section \<open>Escrow manager (lib/escrow.js)\<close>

subsection \<open>Data model\<close>

text \<open>The seven values of the \<open>State\<close> table.\<close>

datatype escrow_state = CREATED | FUNDED | DELIVERED | RELEASED | REFUNDED | EXPIRED | DISPUTED

text \<open>
  One element of an escrow's \<open>history\<close> array, \<open>{ from, to, at }\<close>. The first
  entry written by \<open>create\<close> has \<open>from: null\<close>.
\<close>

record hist_entry =
  h_from :: "escrow_state option"
  h_to :: escrow_state
  h_at :: int

text \<open>
  The \<open>metadata\<close> object: the two keys the manager itself writes
  (\<open>refundReason\<close>, \<open>dispute\<close>) and whatever else the caller put there.
  \<open>writable\<close> is false for a value whose properties cannot be assigned: an object the
  caller froze, or a string or number given as \<open>config.metadata\<close>. The file is in strict
  mode, so an assignment to a property of such a value throws a TypeError.
\<close>

record dispute_info =
  d_reason :: string
  d_raisedBy :: string
  d_at :: int

record metadata =
  refundReason :: "string option"
  dispute :: "dispute_info option"
  extra :: "(string \<times> string) list"
  writable :: bool

text \<open>
  JavaScript objects and arrays are references. The \<open>history\<close> array and the
  \<open>metadata\<close> object of an escrow live in a store, and the escrow object holds their
  addresses; the spread copy \<open>{ ...e }\<close> copies the addresses, not the cells.
\<close>

type_synonym ref = nat

record escrow =
  escrow_id :: string
  state :: escrow_state
  amountSats :: int
  description :: "string option"
  workerAddress :: "string option"
  workerInvoice :: "string option"
  clientPubkey :: "string option"
  workerPubkey :: "string option"
  metadata :: ref
  invoice :: string
  paymentHash :: "string option"
  deadline :: int
  createdAt :: int
  updatedAt :: int
  fundedAt :: "int option"
  deliveredAt :: "int option"
  releasedAt :: "int option"
  refundedAt :: "int option"
  deliveryProof :: "string option"
  releasePreimage :: "string option"
  refundAddress :: "string option"
  history :: ref

text \<open>
  What the code throws. Every throw of escrow.js is a plain \<open>Error\<close> with a
  message; one constructor per message. A rejection of a wallet promise propagates
  unchanged: \<open>PayFailure\<close> carries the message of a rejected \<open>payInvoice\<close> or
  \<open>payAddress\<close>, \<open>WalletFailure\<close> that of a rejected \<open>createInvoice\<close> or
  \<open>waitForPayment\<close>. Two more come from outside the module's own throws:
  \<open>ObserverThrew\<close> is what the \<open>onStateChange\<close> callback threw, and
  \<open>MetadataNotWritable\<close> is the TypeError of an assignment into a metadata value that
  cannot be written.
\<close>

datatype error =
    AmountNotPositive
  | DestinationRequired
  | UnknownEscrow string
  | CannotFund escrow_state
  | PaymentNotReceived
  | CannotDeliver escrow_state
  | CannotRelease escrow_state
  | NoWorkerDestination
  | CannotRefundReleased
  | AlreadyRefunded
  | CannotDispute escrow_state
  | PayFailure string
  | WalletFailure string
  | ObserverThrew string
  | MetadataNotWritable

text \<open>The error taxonomy, which names the classes the messages fall in.\<close>

datatype error_class =
    ValidationError | StateConflictError | PaymentNotReceivedError
  | PaymentFailedError | TransportError | NotFoundError | ForeignError

fun class_of :: "error \<Rightarrow> error_class" where
  "class_of AmountNotPositive = ValidationError"
| "class_of DestinationRequired = ValidationError"
| "class_of NoWorkerDestination = ValidationError"
| "class_of (UnknownEscrow _) = NotFoundError"
| "class_of (CannotFund _) = StateConflictError"
| "class_of (CannotDeliver _) = StateConflictError"
| "class_of (CannotRelease _) = StateConflictError"
| "class_of CannotRefundReleased = StateConflictError"
| "class_of AlreadyRefunded = StateConflictError"
| "class_of (CannotDispute _) = StateConflictError"
| "class_of PaymentNotReceived = PaymentNotReceivedError"
| "class_of (PayFailure _) = PaymentFailedError"
| "class_of (WalletFailure _) = TransportError"
| "class_of (ObserverThrew _) = ForeignError"
| "class_of MetadataNotWritable = ForeignError"

subsection \<open>The wallet\<close>

text \<open>
  The wallet is external. Each method is a function from its arguments to what the
  promise settles to: \<open>Inl msg\<close> is a rejection with that message.
\<close>

record invoice_result =
  inv_invoice :: string
  inv_paymentHash :: "string option"

record pay_result =
  preimage :: "string option"

record wait_result =
  result_paid :: bool

record wallet =
  createInvoice :: "int \<Rightarrow> string \<Rightarrow> int \<Rightarrow> string + invoice_result"
  payInvoice :: "string \<Rightarrow> string + pay_result"
  payAddress :: "string \<Rightarrow> int \<Rightarrow> string \<Rightarrow> string + pay_result"
  waitForPayment :: "string \<Rightarrow> int \<Rightarrow> string + wait_result"

text \<open>
  The calls a manager issues to its wallet. The two that pay are a type of their own, with
  the wallet's answer to each.
\<close>

datatype pay_call =
    PayInvoice string
  | PayAddress string int string

fun wallet_pay :: "wallet \<Rightarrow> pay_call \<Rightarrow> string + pay_result" where
  "wallet_pay W (PayInvoice b) = payInvoice W b"
| "wallet_pay W (PayAddress a n c) = payAddress W a n c"

datatype wallet_call =
    CreateInvoice int string int
  | Pay pay_call
  | WaitForPayment string int

subsection \<open>The manager's state\<close>

text \<open>
  The closure of \<open>createEscrowManager\<close>: the \<open>escrows\<close> Map (an association
  list, since a JavaScript Map iterates in insertion order and \<open>set\<close> on a present key
  keeps its place), the \<open>timers\<close> Map (the ids with a live timer), the options, the
  store of arrays and objects, and two traces: the calls made to \<open>onStateChange\<close>
  and the calls issued to the wallet, oldest first.

  The escrow objects are references too: the Map holds one object per id for good (only
  \<open>create\<close> calls \<open>escrows.set\<close>, with a new random id), so the id stands for the
  reference, and an assignment \<open>e.field = v\<close> through a reference taken earlier changes
  the record stored under the id as it is at that moment.

  \<open>observer\<close> is the \<open>onStateChange\<close> option: absent, or a callback that returns
  (\<open>None\<close>) or throws (\<open>Some msg\<close>). The callback is taken to leave the manager's
  objects alone.
\<close>

record manager =
  escrows :: "(string \<times> escrow) list"
  timers :: "string set"
  defaultDeadlineMs :: int
  observer :: "(string \<Rightarrow> escrow_state \<Rightarrow> escrow_state \<Rightarrow> string option) option"
  hist_heap :: "ref \<Rightarrow> hist_entry list"
  meta_heap :: "ref \<Rightarrow> metadata"
  next_ref :: ref
  notified :: "(string \<times> escrow_state \<times> escrow_state) list"
  wallet_calls :: "wallet_call list"

text \<open>Truthiness of a string-or-null value: \<open>null\<close>, \<open>undefined\<close> and \<open>''\<close> are falsy.\<close>

fun truthy :: "string option \<Rightarrow> bool" where
  "truthy None = False"
| "truthy (Some s) = (s \<noteq> [])"

text \<open>\<open>a || b\<close> on strings.\<close>

fun or_else :: "string option \<Rightarrow> string \<Rightarrow> string" where
  "or_else None d = d"
| "or_else (Some s) d = (if s = [] then d else s)"

text \<open>\<open>a || null\<close> on strings.\<close>

definition or_null :: "string option \<Rightarrow> string option" where
  "or_null a = (if truthy a then a else None)"

text \<open>\<open>n || d\<close> on numbers: \<open>undefined\<close> and \<open>0\<close> are falsy.\<close>

fun num_or :: "int option \<Rightarrow> int \<Rightarrow> int" where
  "num_or None d = d"
| "num_or (Some n) d = (if n = 0 then d else n)"

definition createEscrowManager :: "(string \<Rightarrow> escrow_state \<Rightarrow> escrow_state \<Rightarrow> string option) option \<Rightarrow> int option \<Rightarrow> manager" where
  "createEscrowManager onStateChange deadline_opt =
     \<lparr> escrows = [], timers = {}, defaultDeadlineMs = num_or deadline_opt (60 * 60 * 1000),
       observer = onStateChange, hist_heap = (\<lambda>_. []),
       meta_heap = (\<lambda>_. \<lparr> refundReason = None, dispute = None, extra = [], writable = True \<rparr>),
       next_ref = 0, notified = [], wallet_calls = [] \<rparr>"

subsection \<open>transition and the deadline timer\<close>

text \<open>
  \<open>transition(id, newState)\<close>: sets \<open>state\<close> and \<open>updatedAt\<close>, pushes one entry on
  the history array and then calls the observer when there is one. When the observer
  throws, the throw leaves \<open>transition\<close> with the state and the history already
  written. \<open>now\<close> is the reading of \<open>Date.now()\<close>.
\<close>

definition transition :: "int \<Rightarrow> manager \<Rightarrow> string \<Rightarrow> escrow_state \<Rightarrow> (error + escrow) \<times> manager" where
  "transition now m i newState =
     (case map_of (escrows m) i of
        None \<Rightarrow> (Inl (UnknownEscrow i), m)
      | Some e \<Rightarrow>
          let old = state e;
              e' = e\<lparr> state := newState, updatedAt := now \<rparr>;
              m1 = m\<lparr> escrows := AList.update i e' (escrows m),
                      hist_heap := (hist_heap m)(history e :=
                        hist_heap m (history e) @ [\<lparr> h_from = Some old, h_to = newState, h_at = now \<rparr>]) \<rparr>
          in case observer m of
               None \<Rightarrow> (Inr e', m1)
             | Some onStateChange \<Rightarrow>
                 (case onStateChange i old newState of
                    None \<Rightarrow> (Inr e', m1\<lparr> notified := notified m @ [(i, old, newState)] \<rparr>)
                  | Some msg \<Rightarrow>
                      (Inl (ObserverThrew msg), m1\<lparr> notified := notified m @ [(i, old, newState)] \<rparr>)))"

text \<open>
  \<open>startDeadlineTimer(id)\<close>: expires the escrow at once when the deadline has passed,
  otherwise arms a timer. The first component is what it throws, if it throws.
\<close>

definition startDeadlineTimer :: "int \<Rightarrow> manager \<Rightarrow> string \<Rightarrow> error option \<times> manager" where
  "startDeadlineTimer now m i =
     (case map_of (escrows m) i of
        None \<Rightarrow> (None, m)
      | Some e \<Rightarrow>
          if deadline e = 0 then (None, m)
          else if deadline e - now \<le> 0 then
            (if state e = FUNDED \<or> state e = CREATED then
               (case transition now m i EXPIRED of
                  (Inl err, m') \<Rightarrow> (Some err, m')
                | (Inr _, m') \<Rightarrow> (None, m'))
             else (None, m))
          else (None, m\<lparr> timers := insert i (timers m) \<rparr>))"

text \<open>
  The callback given to \<open>setTimeout\<close>, run when the timer of escrow \<open>i\<close> fires. It
  reads the escrow's state as it is when it runs. When \<open>transition\<close> throws, the
  \<open>timers.delete(id)\<close> after it is not reached.
\<close>

definition deadline_fire :: "int \<Rightarrow> manager \<Rightarrow> string \<Rightarrow> manager" where
  "deadline_fire now m i =
     (case map_of (escrows m) i of
        None \<Rightarrow> m\<lparr> timers := timers m - {i} \<rparr>
      | Some current \<Rightarrow>
          if state current = FUNDED \<or> state current = CREATED then
            (case transition now m i EXPIRED of
               (Inl err, m') \<Rightarrow> m'
             | (Inr _, m') \<Rightarrow> m'\<lparr> timers := timers m' - {i} \<rparr>)
          else m\<lparr> timers := timers m - {i} \<rparr>)"

text \<open>\<open>clearTimeout\<close> and \<open>timers.delete(id)\<close>, as release and refund do.\<close>

definition cancel_timer :: "manager \<Rightarrow> string \<Rightarrow> manager" where
  "cancel_timer m i = m\<lparr> timers := timers m - {i} \<rparr>"

definition log_call :: "wallet_call \<Rightarrow> manager \<Rightarrow> manager" where
  "log_call c m = m\<lparr> wallet_calls := wallet_calls m @ [c] \<rparr>"

text \<open>\<open>escrows.set(id, escrow)\<close>.\<close>

definition put_escrow :: "string \<Rightarrow> escrow \<Rightarrow> manager \<Rightarrow> manager" where
  "put_escrow i e m = m\<lparr> escrows := AList.update i e (escrows m) \<rparr>"

text \<open>
  Assignments \<open>e.field = v\<close> through the reference to the escrow stored under \<open>i\<close>:
  they change that object as it is now, whatever it was when the reference was taken.
\<close>

definition update_escrow :: "string \<Rightarrow> (escrow \<Rightarrow> escrow) \<Rightarrow> manager \<Rightarrow> manager" where
  "update_escrow i f m =
     (case map_of (escrows m) i of
        None \<Rightarrow> m
      | Some e \<Rightarrow> m\<lparr> escrows := AList.update i (f e) (escrows m) \<rparr>)"

subsection \<open>create\<close>

record create_config =
  c_amountSats :: "int option"
  c_workerAddress :: "string option"
  c_workerInvoice :: "string option"
  c_description :: "string option"
  c_deadlineMs :: "int option"
  c_clientPubkey :: "string option"
  c_workerPubkey :: "string option"
  c_metadata :: "ref option"

text \<open>\<open>Math.ceil(ms / 1000)\<close> on an integer number of milliseconds.\<close>

definition ceil_div_1000 :: "int \<Rightarrow> int" where
  "ceil_div_1000 ms = - ((- ms) div 1000)"

text \<open>
  \<open>create(config)\<close>. \<open>fresh\<close> is the id drawn from \<open>crypto.randomBytes\<close>, \<open>now\<close>
  the clock before the wallet call and \<open>later\<close> the clock when the timer is started.
  A metadata object given by the caller is used as it is (by reference); otherwise a new
  empty object is allocated, as the history array always is. What is returned is the copy
  \<open>{ ...escrow }\<close> made after \<open>startDeadlineTimer\<close>, so of an escrow that may have
  expired already.
\<close>

definition create :: "wallet \<Rightarrow> string \<Rightarrow> int \<Rightarrow> int \<Rightarrow> manager \<Rightarrow> create_config \<Rightarrow> (error + escrow) \<times> manager" where
  "create W fresh now later m config =
     (if num_or (c_amountSats config) 0 \<le> 0 then (Inl AmountNotPositive, m)
      else if \<not> truthy (c_workerAddress config) \<and> \<not> truthy (c_workerInvoice config)
        then (Inl DestinationRequired, m)
      else
        let amount = num_or (c_amountSats config) 0;
            deadlineMs = num_or (c_deadlineMs config) (defaultDeadlineMs m);
            descr = ''Escrow: '' @ or_else (c_description config) fresh;
            m1 = log_call (CreateInvoice amount descr (ceil_div_1000 deadlineMs)) m
        in case createInvoice W amount descr (ceil_div_1000 deadlineMs) of
             Inl msg \<Rightarrow> (Inl (WalletFailure msg), m1)
           | Inr ivc \<Rightarrow>
               let mref = (case c_metadata config of Some r \<Rightarrow> r | None \<Rightarrow> next_ref m1);
                   m2 = (case c_metadata config of
                           Some r \<Rightarrow> m1
                         | None \<Rightarrow> m1\<lparr> meta_heap := (meta_heap m1)(next_ref m1 :=
                                          \<lparr> refundReason = None, dispute = None, extra = [],
                                            writable = True \<rparr>),
                                        next_ref := Suc (next_ref m1) \<rparr>);
                   href = next_ref m2;
                   m3 = m2\<lparr> hist_heap := (hist_heap m2)(href :=
                               [\<lparr> h_from = None, h_to = CREATED, h_at = now \<rparr>]),
                            next_ref := Suc href \<rparr>;
                   e = \<lparr> escrow_id = fresh, state = CREATED, amountSats = amount,
                         description = or_null (c_description config),
                         workerAddress = or_null (c_workerAddress config),
                         workerInvoice = or_null (c_workerInvoice config),
                         clientPubkey = or_null (c_clientPubkey config),
                         workerPubkey = or_null (c_workerPubkey config),
                         metadata = mref,
                         invoice = inv_invoice ivc, paymentHash = inv_paymentHash ivc,
                         deadline = now + deadlineMs, createdAt = now, updatedAt = now,
                         fundedAt = None, deliveredAt = None, releasedAt = None,
                         refundedAt = None, deliveryProof = None, releasePreimage = None,
                         refundAddress = None, history = href \<rparr>
               in case startDeadlineTimer later (put_escrow fresh e m3) fresh of
                    (Some err, m4) \<Rightarrow> (Inl err, m4)
                  | (None, m4) \<Rightarrow>
                      (Inr (case map_of (escrows m4) fresh of Some e' \<Rightarrow> e' | None \<Rightarrow> e), m4))"

subsection \<open>fund, deliver, release, refund, dispute\<close>

text \<open>
  fund, release and refund are \<open>async\<close>: each runs up to its \<open>await\<close> of the wallet,
  and goes on when the wallet has answered. Anything else can run in between: another call
  on the same escrow, or its timer. So each is two functions: the part before the await,
  which ends either with a result or with the call it awaits, and the part after it, which
  takes the wallet's answer. Neither checks the state again after the await.
\<close>

datatype ('r, 'c) progress = Finished 'r | Awaiting 'c

record fund_opts =
  autoDetect :: "bool option"
  timeoutMs :: "int option"

text \<open>\<open>e.fundedAt = Date.now(); return { ...transition(id, State.FUNDED) }\<close>.\<close>

definition fund_commit :: "int \<Rightarrow> manager \<Rightarrow> string \<Rightarrow> (error + escrow) \<times> manager" where
  "fund_commit now m i =
     transition now (update_escrow i (\<lambda>e. e\<lparr> fundedAt := Some now \<rparr>) m) i FUNDED"

text \<open>
  \<open>fund(id, opts)\<close> up to the await. \<open>opts.autoDetect !== false\<close> is true unless the
  option is given and false; without detection there is no await at all. The call awaited
  is \<open>waitForPayment(hash, { timeoutMs })\<close>.
\<close>

definition fund_begin :: "int \<Rightarrow> manager \<Rightarrow> string \<Rightarrow> fund_opts \<Rightarrow> (error + escrow, string \<times> int) progress \<times> manager" where
  "fund_begin now m i opts =
     (case map_of (escrows m) i of
        None \<Rightarrow> (Finished (Inl (UnknownEscrow i)), m)
      | Some e \<Rightarrow>
          if state e \<noteq> CREATED then (Finished (Inl (CannotFund (state e))), m)
          else if autoDetect opts \<noteq> Some False \<and> truthy (paymentHash e) then
            (let h = the (paymentHash e);
                 t = num_or (timeoutMs opts) 60000
             in (Awaiting (h, t), log_call (WaitForPayment h t) m))
          else (Finished (fst (fund_commit now m i)), snd (fund_commit now m i)))"

text \<open>\<open>fund\<close> after the await, on the wallet's answer.\<close>

definition fund_resume :: "int \<Rightarrow> manager \<Rightarrow> string \<Rightarrow> string + wait_result \<Rightarrow> (error + escrow) \<times> manager" where
  "fund_resume now m i answer =
     (case answer of
        Inl msg \<Rightarrow> (Inl (WalletFailure msg), m)
      | Inr r \<Rightarrow>
          if \<not> result_paid r then (Inl PaymentNotReceived, m)
          else fund_commit now m i)"

text \<open>\<open>fund\<close> with nothing running during its await.\<close>

definition fund :: "wallet \<Rightarrow> int \<Rightarrow> manager \<Rightarrow> string \<Rightarrow> fund_opts \<Rightarrow> (error + escrow) \<times> manager" where
  "fund W now m i opts =
     (case fund_begin now m i opts of
        (Finished r, m1) \<Rightarrow> (r, m1)
      | (Awaiting (h, t), m1) \<Rightarrow> fund_resume now m1 i (waitForPayment W h t))"

text \<open>\<open>deliver(id, proof)\<close>, which awaits nothing.\<close>

definition deliver :: "int \<Rightarrow> manager \<Rightarrow> string \<Rightarrow> string \<Rightarrow> (error + escrow) \<times> manager" where
  "deliver now m i prf =
     (case map_of (escrows m) i of
        None \<Rightarrow> (Inl (UnknownEscrow i), m)
      | Some e \<Rightarrow>
          if state e \<noteq> FUNDED then (Inl (CannotDeliver (state e)), m)
          else transition now
                 (update_escrow i (\<lambda>e. e\<lparr> deliveryProof := Some prf, deliveredAt := Some now \<rparr>) m)
                 i DELIVERED)"

text \<open>
  \<open>release(id)\<close> up to the await: the guard, then the payment of the worker's invoice
  when there is one, else of the worker's address.
\<close>

definition release_begin :: "manager \<Rightarrow> string \<Rightarrow> (error + escrow, pay_call) progress \<times> manager" where
  "release_begin m i =
     (case map_of (escrows m) i of
        None \<Rightarrow> (Finished (Inl (UnknownEscrow i)), m)
      | Some e \<Rightarrow>
          if state e \<noteq> FUNDED \<and> state e \<noteq> DELIVERED
          then (Finished (Inl (CannotRelease (state e))), m)
          else if truthy (workerInvoice e) then
            (let c = PayInvoice (the (workerInvoice e))
             in (Awaiting c, log_call (Pay c) m))
          else if truthy (workerAddress e) then
            (let c = PayAddress (the (workerAddress e)) (amountSats e)
                       (''Escrow release: '' @ or_else (description e) (escrow_id e))
             in (Awaiting c, log_call (Pay c) m))
          else (Finished (Inl NoWorkerDestination), m))"

text \<open>
  \<open>release\<close> after the await: a rejection propagates; otherwise the preimage and the
  time are written, the timer is cancelled and the escrow moves to RELEASED.
\<close>

definition release_resume :: "int \<Rightarrow> manager \<Rightarrow> string \<Rightarrow> string + pay_result \<Rightarrow> (error + escrow) \<times> manager" where
  "release_resume now m i answer =
     (case answer of
        Inl msg \<Rightarrow> (Inl (PayFailure msg), m)
      | Inr payResult \<Rightarrow>
          transition now
            (cancel_timer
               (update_escrow i
                  (\<lambda>e. e\<lparr> releasePreimage := preimage payResult, releasedAt := Some now \<rparr>) m) i)
            i RELEASED)"

text \<open>\<open>release\<close> with nothing running during its await.\<close>

definition release :: "wallet \<Rightarrow> int \<Rightarrow> manager \<Rightarrow> string \<Rightarrow> (error + escrow) \<times> manager" where
  "release W now m i =
     (case release_begin m i of
        (Finished r, m1) \<Rightarrow> (r, m1)
      | (Awaiting c, m1) \<Rightarrow> release_resume now m1 i (wallet_pay W c))"

text \<open>
  The writes of \<open>refund\<close>: \<open>refundAddress\<close> and \<open>refundedAt\<close> on the escrow, then
  \<open>refundReason\<close> in the metadata object, which throws when that object cannot be
  written, then the timer and the transition.
\<close>

definition refund_commit :: "int \<Rightarrow> manager \<Rightarrow> string \<Rightarrow> string option \<Rightarrow> string option \<Rightarrow> (error + escrow) \<times> manager" where
  "refund_commit now m i addr reason =
     (case map_of (escrows m) i of
        None \<Rightarrow> (Inl (UnknownEscrow i), m)
      | Some e \<Rightarrow>
          let m1 = update_escrow i (\<lambda>e. e\<lparr> refundAddress := addr, refundedAt := Some now \<rparr>) m
          in if \<not> writable (meta_heap m1 (metadata e)) then (Inl MetadataNotWritable, m1)
             else
               let m2 = m1\<lparr> meta_heap := (meta_heap m1)(metadata e :=
                          (meta_heap m1 (metadata e))\<lparr> refundReason := Some (or_else reason ''manual'') \<rparr>) \<rparr>
               in transition now (cancel_timer m2 i) i REFUNDED)"

text \<open>
  \<open>refund(id, refundAddress, reason)\<close> up to the await: the two guards, then the payment
  when an address is given. Without an address nothing is awaited.
\<close>

definition refund_begin :: "int \<Rightarrow> manager \<Rightarrow> string \<Rightarrow> string option \<Rightarrow> string option \<Rightarrow> (error + escrow, pay_call) progress \<times> manager" where
  "refund_begin now m i addr reason =
     (case map_of (escrows m) i of
        None \<Rightarrow> (Finished (Inl (UnknownEscrow i)), m)
      | Some e \<Rightarrow>
          if state e = RELEASED then (Finished (Inl CannotRefundReleased), m)
          else if state e = REFUNDED then (Finished (Inl AlreadyRefunded), m)
          else if truthy addr then
            (let c = PayAddress (the addr) (amountSats e)
                       (''Escrow refund: '' @ or_else reason (escrow_id e))
             in (Awaiting c, log_call (Pay c) m))
          else (Finished (fst (refund_commit now m i addr reason)),
                snd (refund_commit now m i addr reason)))"

text \<open>\<open>refund\<close> after the await.\<close>

definition refund_resume :: "int \<Rightarrow> manager \<Rightarrow> string \<Rightarrow> string option \<Rightarrow> string option \<Rightarrow> string + pay_result \<Rightarrow> (error + escrow) \<times> manager" where
  "refund_resume now m i addr reason answer =
     (case answer of
        Inl msg \<Rightarrow> (Inl (PayFailure msg), m)
      | Inr _ \<Rightarrow> refund_commit now m i addr reason)"

text \<open>\<open>refund\<close> with nothing running during its await.\<close>

definition refund :: "wallet \<Rightarrow> int \<Rightarrow> manager \<Rightarrow> string \<Rightarrow> string option \<Rightarrow> string option \<Rightarrow> (error + escrow) \<times> manager" where
  "refund W now m i addr reason =
     (case refund_begin now m i addr reason of
        (Finished r, m1) \<Rightarrow> (r, m1)
      | (Awaiting c, m1) \<Rightarrow> refund_resume now m1 i addr reason (wallet_pay W c))"

text \<open>
  \<open>dispute(id, reason, raisedBy)\<close>, which awaits nothing: the guard, the write into the
  metadata object, the transition.
\<close>

definition dispute_op :: "int \<Rightarrow> manager \<Rightarrow> string \<Rightarrow> string \<Rightarrow> string \<Rightarrow> (error + escrow) \<times> manager" where
  "dispute_op now m i reason raisedBy =
     (case map_of (escrows m) i of
        None \<Rightarrow> (Inl (UnknownEscrow i), m)
      | Some e \<Rightarrow>
          if state e = RELEASED \<or> state e = REFUNDED then (Inl (CannotDispute (state e)), m)
          else if \<not> writable (meta_heap m (metadata e)) then (Inl MetadataNotWritable, m)
          else
            let m1 = m\<lparr> meta_heap := (meta_heap m)(metadata e :=
                        (meta_heap m (metadata e))\<lparr> dispute :=
                           Some \<lparr> d_reason = reason, d_raisedBy = raisedBy, d_at = now \<rparr> \<rparr>) \<rparr>
            in transition now m1 i DISPUTED)"

subsection \<open>get and list\<close>

text \<open>
  \<open>get(id)\<close> returns \<open>{ ...e }\<close> or \<open>null\<close>: a new object with the same field
  values, the two references among them.
\<close>

definition get :: "manager \<Rightarrow> string \<Rightarrow> escrow option" where
  "get m i = map_of (escrows m) i"

text \<open>\<open>list(state)\<close>: every escrow in insertion order, filtered when a state is given.\<close>

definition list_escrows :: "manager \<Rightarrow> escrow_state option \<Rightarrow> escrow list" where
  "list_escrows m st =
     (case st of
        Some s \<Rightarrow> filter (\<lambda>e. state e = s) (map snd (escrows m))
      | None \<Rightarrow> map snd (escrows m))"


section \<open>Streaming provider (lib/stream.js, createStreamProvider)\<close>

subsection \<open>Sessions and events\<close>

record pending_payment =
  pp_paymentHash :: "string option"
  pp_batchIndex :: nat
  pp_invoice :: string

record session =
  session_id :: string
  batchIndex :: nat
  totalTokens :: nat
  totalSats :: int
  pendingPayment :: "pending_payment option"
  paid :: "nat set"
  closed :: bool

text \<open>
  The \<open>sessions\<close> Map holds session objects, which the producer loop and the proof
  handler both mutate. The objects live in a store addressed by session id;
  \<open>session_keys\<close> is the key set of the Map.
\<close>

record provider =
  session_obj :: "string \<Rightarrow> session"
  session_keys :: "string set"

text \<open>\<open>sessions.get(id)\<close>.\<close>

definition sessions_get :: "provider \<Rightarrow> string \<Rightarrow> session option" where
  "sessions_get P sid = (if sid \<in> session_keys P then Some (session_obj P sid) else None)"

definition update_session :: "string \<Rightarrow> (session \<Rightarrow> session) \<Rightarrow> provider \<Rightarrow> provider" where
  "update_session sid f P = P\<lparr> session_obj := (session_obj P)(sid := f (session_obj P sid)) \<rparr>"

text \<open>The server-sent events, with the payload fields of each.\<close>

datatype sse_event =
    SessionEv string
  | ContentEv string nat nat
  | InvoiceEv string "string option" nat int
  | PausedEv string nat int string
  | DoneEv string nat int nat
  | ErrorEv string
  | OtherEv string

text \<open>The HTTP response being written: the events sent so far and \<open>writableEnded\<close>.\<close>

record response =
  events :: "sse_event list"
  writableEnded :: bool

definition sendSSE :: "response \<Rightarrow> sse_event \<Rightarrow> response" where
  "sendSSE res ev = (if writableEnded res then res else res\<lparr> events := events res @ [ev] \<rparr>)"

record provider_config =
  satsPerBatch :: int
  tokensPerBatch :: int
  maxBatches :: int
  paymentTimeoutMs :: int
  invoiceExpiryS :: int

record provider_opts =
  o_satsPerBatch :: "int option"
  o_tokensPerBatch :: "int option"
  o_maxBatches :: "int option"
  o_paymentTimeoutMs :: "int option"
  o_invoiceExpiryS :: "int option"

definition createStreamProvider :: "provider_opts \<Rightarrow> provider_config" where
  "createStreamProvider opts =
     \<lparr> satsPerBatch = num_or (o_satsPerBatch opts) 1,
       tokensPerBatch = num_or (o_tokensPerBatch opts) 50,
       maxBatches = num_or (o_maxBatches opts) 100,
       paymentTimeoutMs = num_or (o_paymentTimeoutMs opts) 30000,
       invoiceExpiryS = num_or (o_invoiceExpiryS opts) 120 \<rparr>"

subsection \<open>Proof of payment: _handlePayment\<close>

text \<open>
  The JSON values a \<open>preimage\<close> field can hold, and their truthiness. Arrays and objects
  are not in the type: a preimage is taken to be absent or a scalar.
\<close>

datatype js_value = JUndefined | JNull | JBool bool | JNum int | JStr string

fun js_truthy :: "js_value \<Rightarrow> bool" where
  "js_truthy JUndefined = False"
| "js_truthy JNull = False"
| "js_truthy (JBool b) = b"
| "js_truthy (JNum n) = (n \<noteq> 0)"
| "js_truthy (JStr s) = (s \<noteq> [])"

text \<open>
  The body of a POST after \<open>JSON.parse\<close>: \<open>Malformed\<close> when parsing throws, else the
  \<open>sessionId\<close> (\<open>None\<close> when absent) and the \<open>preimage\<close>.
\<close>

datatype proof_post = Malformed | Post "string option" js_value

datatype post_response =
    UnknownSession404
  | Unlocked200
  | InvalidPreimage400
  | NoPendingOrMissing400
  | InvalidJSON400

text \<open>
  \<open>_handlePayment\<close>. \<open>H\<close> is the digest the code computes from the submitted string:
  SHA-256 of \<open>Buffer.from(preimage, 'hex')\<close>, in hex. \<open>Buffer.from\<close> throws on a
  number or a boolean, and the handler's \<open>catch\<close> answers 400 Invalid JSON.
\<close>

definition handlePayment :: "(string \<Rightarrow> string) \<Rightarrow> provider \<Rightarrow> proof_post \<Rightarrow> post_response \<times> provider" where
  "handlePayment H P body =
     (case body of
        Malformed \<Rightarrow> (InvalidJSON400, P)
      | Post None pre \<Rightarrow> (UnknownSession404, P)
      | Post (Some sid) pre \<Rightarrow>
          (case sessions_get P sid of
             None \<Rightarrow> (UnknownSession404, P)
           | Some s \<Rightarrow>
               if js_truthy pre \<and> pendingPayment s \<noteq> None then
                 (case pre of
                    JStr p \<Rightarrow>
                      if Some (H p) = pp_paymentHash (the (pendingPayment s)) then
                        (Unlocked200,
                         update_session sid
                           (\<lambda>s. s\<lparr> paid := insert (pp_batchIndex (the (pendingPayment s))) (paid s),
                                    pendingPayment := None \<rparr>) P)
                      else (InvalidPreimage400, P)
                  | _ \<Rightarrow> (InvalidJSON400, P))
               else (NoPendingOrMissing400, P)))"

fun handle_posts :: "(string \<Rightarrow> string) \<Rightarrow> proof_post list \<Rightarrow> provider \<Rightarrow> provider" where
  "handle_posts H [] P = P"
| "handle_posts H (b # bs) P = handle_posts H bs (snd (handlePayment H P b))"

subsection \<open>Waiting for a payment: _waitForPayment\<close>

text \<open>
  What happens around the provider while it waits, one record per turn of the polling
  loop: how late the turn starts, the proofs POSTed while the wallet is being asked, the
  wallet's answer (\<open>Inl\<close> a rejection, \<open>Inr p\<close> the \<open>paid\<close> flag), and the proofs
  POSTed during the one-second sleep. Turn \<open>k\<close> starts at least \<open>1000 * k\<close> ms after
  the wait began, since every earlier turn slept 1000 ms.
\<close>

record poll_round =
  lag :: nat
  posts_during_wallet :: "proof_post list"
  wallet_reply :: "string + bool"
  posts_during_sleep :: "proof_post list"

text \<open>
  The surroundings of one stream: the wallet's answer to \<open>createInvoice\<close> for the
  batch named in the description, and the polling rounds of the wait for that batch.
\<close>

record stream_env =
  invoice_for :: "nat \<Rightarrow> string + invoice_result"
  rounds_for :: "nat \<Rightarrow> nat \<Rightarrow> poll_round"

function wait_loop :: "(string \<Rightarrow> string) \<Rightarrow> (nat \<Rightarrow> poll_round) \<Rightarrow> int \<Rightarrow> string \<Rightarrow> nat \<Rightarrow> nat \<Rightarrow> provider \<Rightarrow> bool \<times> provider" where
  "wait_loop H rounds timeout sid batchIdx k P =
     (if int (1000 * k + lag (rounds k)) < timeout then
        (if batchIdx \<in> paid (session_obj P sid) then (True, P)
         else
           let P1 = handle_posts H (posts_during_wallet (rounds k)) P
           in case wallet_reply (rounds k) of
                Inr True \<Rightarrow>
                  (True, update_session sid
                           (\<lambda>s. s\<lparr> paid := insert batchIdx (paid s), pendingPayment := None \<rparr>) P1)
              | _ \<Rightarrow>
                  wait_loop H rounds timeout sid batchIdx (Suc k)
                    (handle_posts H (posts_during_sleep (rounds k)) P1))
      else (False, P))"
  by pat_completeness auto
termination
  by (relation "measure (\<lambda>(H, rounds, timeout, sid, batchIdx, k, P). nat (timeout - int (1000 * k)))") auto

declare wait_loop.simps [simp del]

definition waitForPayment_session :: "(string \<Rightarrow> string) \<Rightarrow> (nat \<Rightarrow> poll_round) \<Rightarrow> int \<Rightarrow> string \<Rightarrow> provider \<Rightarrow> bool \<times> provider" where
  "waitForPayment_session H rounds timeout sid P =
     (case pendingPayment (session_obj P sid) of
        None \<Rightarrow> (True, P)
      | Some pp \<Rightarrow> wait_loop H rounds timeout sid (pp_batchIndex pp) 0 P)"

subsection \<open>The producer loop: handleRequest\<close>

record run_state =
  prov :: provider
  res :: response
  buffer :: string
  tokenCount :: nat

text \<open>How the \<open>for await\<close> loop is left: normally (exhaustion or \<open>break\<close>) or by a throw.\<close>

datatype loop_exit = Normal | Thrown string

definition flush_batch :: "string \<Rightarrow> run_state \<Rightarrow> run_state" where
  "flush_batch sid st =
     (let P1 = update_session sid
                 (\<lambda>s. s\<lparr> batchIndex := batchIndex s + 1,
                          totalTokens := totalTokens s + tokenCount st \<rparr>) (prov st)
      in st\<lparr> prov := P1,
             res := sendSSE (res st)
                      (ContentEv (buffer st) (batchIndex (session_obj P1 sid)) (tokenCount st)) \<rparr>)"

definition done_event :: "string \<Rightarrow> session \<Rightarrow> sse_event" where
  "done_event reason s = DoneEv reason (batchIndex s) (totalSats s) (totalTokens s)"

text \<open>
  The body of the \<open>for await\<close> loop over the generator's tokens. \<open>gen_err\<close> is the
  message the generator throws with after its last token, if it throws.
\<close>

fun produce :: "provider_config \<Rightarrow> (string \<Rightarrow> string) \<Rightarrow> stream_env \<Rightarrow> bool \<Rightarrow> string \<Rightarrow> string option \<Rightarrow> string list \<Rightarrow> run_state \<Rightarrow> loop_exit \<times> run_state" where
  "produce cfg H env firstBatchFree sid gen_err [] st =
     (case gen_err of None \<Rightarrow> (Normal, st) | Some msg \<Rightarrow> (Thrown msg, st))"
| "produce cfg H env firstBatchFree sid gen_err (token # rest) st =
     (if closed (session_obj (prov st) sid) then (Normal, st)
      else
        let st1 = st\<lparr> buffer := buffer st @ token, tokenCount := tokenCount st + 1 \<rparr>
        in if int (tokenCount st1) \<ge> tokensPerBatch cfg then
             (let st2 = (flush_batch sid st1)\<lparr> buffer := [], tokenCount := 0 \<rparr>;
                  s2 = session_obj (prov st2) sid
              in if int (batchIndex s2) \<ge> maxBatches cfg then
                   (Normal, st2\<lparr> res := sendSSE (res st2) (done_event ''max_batches'' s2) \<rparr>)
                 else if \<not> (firstBatchFree \<and> batchIndex s2 = 1) then
                   (case invoice_for env (batchIndex s2 + 1) of
                      Inl msg \<Rightarrow> (Thrown msg, st2)
                    | Inr ivc \<Rightarrow>
                        let P3 = update_session sid
                                   (\<lambda>s. s\<lparr> pendingPayment :=
                                      Some \<lparr> pp_paymentHash = inv_paymentHash ivc,
                                             pp_batchIndex = batchIndex s2 + 1,
                                             pp_invoice = inv_invoice ivc \<rparr> \<rparr>) (prov st2);
                            res3 = sendSSE (res st2)
                                     (InvoiceEv (inv_invoice ivc) (inv_paymentHash ivc)
                                        (batchIndex s2 + 1) (satsPerBatch cfg));
                            (was_paid, P4) = waitForPayment_session H
                                           (rounds_for env (batchIndex s2 + 1))
                                           (paymentTimeoutMs cfg) sid P3
                        in if \<not> was_paid then
                             (Normal, st2\<lparr> prov := P4,
                                res := sendSSE res3
                                  (PausedEv ''payment_timeout'' (batchIndex (session_obj P4 sid))
                                     (totalSats (session_obj P4 sid))
                                     (''POST with { sessionId: \"'' @ sid @ ''\", preimage: \"...\" }'')) \<rparr>)
                           else
                             produce cfg H env firstBatchFree sid gen_err rest
                               (st2\<lparr> prov := update_session sid
                                        (\<lambda>s. s\<lparr> totalSats := totalSats s + satsPerBatch cfg \<rparr>) P4,
                                     res := res3 \<rparr>))
                 else produce cfg H env firstBatchFree sid gen_err rest st2)
           else produce cfg H env firstBatchFree sid gen_err rest st1)"

text \<open>What follows the loop inside the \<open>try\<close>: the last partial batch and the \<open>done\<close> event.\<close>

definition after_loop :: "string \<Rightarrow> run_state \<Rightarrow> run_state" where
  "after_loop sid st =
     (let st1 = (if buffer st \<noteq> [] \<and> \<not> closed (session_obj (prov st) sid)
                 then flush_batch sid st else st)
      in if \<not> closed (session_obj (prov st1) sid)
         then st1\<lparr> res := sendSSE (res st1) (done_event ''complete'' (session_obj (prov st1) sid)) \<rparr>
         else st1)"

text \<open>
  \<open>handleRequest\<close> on a request that is not a POST. \<open>sid\<close> is the session id drawn
  from \<open>crypto.randomBytes\<close>; \<open>fbf\<close> is \<open>streamOpts.firstBatchFree\<close>. The
  \<open>finally\<close> block closes the session and ends the response on every path.
\<close>

definition handleRequest :: "provider_config \<Rightarrow> (string \<Rightarrow> string) \<Rightarrow> stream_env \<Rightarrow> bool option \<Rightarrow> string \<Rightarrow> string list \<Rightarrow> string option \<Rightarrow> provider \<Rightarrow> provider \<times> response" where
  "handleRequest cfg H env fbf sid tokens gen_err P =
     (let firstBatchFree = (fbf \<noteq> Some False);
          new_session = \<lparr> session_id = sid, batchIndex = 0, totalTokens = 0, totalSats = 0,
                          pendingPayment = None, paid = {}, closed = False \<rparr>;
          P1 = P\<lparr> session_obj := (session_obj P)(sid := new_session),
                  session_keys := insert sid (session_keys P) \<rparr>;
          st0 = \<lparr> prov = P1,
                  res = sendSSE \<lparr> events = [], writableEnded = False \<rparr> (SessionEv sid),
                  buffer = [], tokenCount = 0 \<rparr>;
          (exit, st1) = produce cfg H env firstBatchFree sid gen_err tokens st0;
          st2 = (case exit of
                   Normal \<Rightarrow> after_loop sid st1
                 | Thrown msg \<Rightarrow> st1\<lparr> res := sendSSE (res st1) (ErrorEv msg) \<rparr>)
      in (update_session sid (\<lambda>s. s\<lparr> closed := True \<rparr>) (prov st2),
          (res st2)\<lparr> writableEnded := True \<rparr>))"

section \<open>Streaming client (lib/stream.js, createStreamClient)\<close>

record client_state =
  spent :: int
  sessionId :: "string option"
  yielded :: "string list"
  payments :: "(string \<times> int \<times> int) list"
  proofs_posted :: "(string \<times> string) list"










section \<open>Notions used to state the properties\<close>

subsection \<open>Escrow\<close>

text \<open>
  The six things that can happen to an escrow, and the result of one that runs from its
  start to its end with nothing else running in between: whether it went through (it
  returned without throwing), and the manager afterwards. A timer firing returns nothing;
  it has gone through when it has changed the escrow's state.
\<close>

datatype operation =
    Fund fund_opts
  | Deliver string
  | Release
  | Refund "string option" "string option"
  | Dispute string string
  | Deadline

definition state_of :: "manager \<Rightarrow> string \<Rightarrow> escrow_state option" where
  "state_of m i = map_option state (get m i)"

fun perform :: "wallet \<Rightarrow> int \<Rightarrow> manager \<Rightarrow> string \<Rightarrow> operation \<Rightarrow> bool \<times> manager" where
  "perform W now m i (Fund opts) = (isl (fst (fund W now m i opts)) = False, snd (fund W now m i opts))"
| "perform W now m i (Deliver prf) = (isl (fst (deliver now m i prf)) = False, snd (deliver now m i prf))"
| "perform W now m i Release = (isl (fst (release W now m i)) = False, snd (release W now m i))"
| "perform W now m i (Refund addr reason) =
     (isl (fst (refund W now m i addr reason)) = False, snd (refund W now m i addr reason))"
| "perform W now m i (Dispute reason raisedBy) =
     (isl (fst (dispute_op now m i reason raisedBy)) = False, snd (dispute_op now m i reason raisedBy))"
| "perform W now m i Deadline =
     (state_of (deadline_fire now m i) i \<noteq> state_of m i, deadline_fire now m i)"

text \<open>The transition table as the specification lists it.\<close>

definition spec_table :: "(escrow_state \<times> escrow_state) list" where
  "spec_table =
     [(CREATED, FUNDED), (CREATED, EXPIRED), (FUNDED, DELIVERED), (FUNDED, RELEASED),
      (FUNDED, REFUNDED), (FUNDED, EXPIRED), (FUNDED, DISPUTED), (DELIVERED, RELEASED),
      (DELIVERED, REFUNDED), (DELIVERED, DISPUTED)]"

text \<open>
  The transitions the guards of each operation let through in the code: the guards of
  refund and dispute turn away RELEASED and REFUNDED only.
\<close>

fun code_table :: "operation \<Rightarrow> (escrow_state \<times> escrow_state) list" where
  "code_table (Fund opts) = [(CREATED, FUNDED)]"
| "code_table (Deliver prf) = [(FUNDED, DELIVERED)]"
| "code_table Release = [(FUNDED, RELEASED), (DELIVERED, RELEASED)]"
| "code_table (Refund addr reason) =
     [(CREATED, REFUNDED), (FUNDED, REFUNDED), (DELIVERED, REFUNDED), (EXPIRED, REFUNDED),
      (DISPUTED, REFUNDED)]"
| "code_table (Dispute reason raisedBy) =
     [(CREATED, DISPUTED), (FUNDED, DISPUTED), (DELIVERED, DISPUTED), (EXPIRED, DISPUTED),
      (DISPUTED, DISPUTED)]"
| "code_table Deadline = [(CREATED, EXPIRED), (FUNDED, EXPIRED)]"

text \<open>
  \<open>untouched m m'\<close>: \<open>m'\<close> is \<open>m\<close> but for the trace of wallet calls. Every escrow,
  every history array and metadata object, the timers and the observer's trace are the
  same.
\<close>

definition untouched :: "manager \<Rightarrow> manager \<Rightarrow> bool" where
  "untouched m m' = (m'\<lparr> wallet_calls := wallet_calls m \<rparr> = m)"

text \<open>
  What a caller can do with an object it got from \<open>get\<close> or \<open>list\<close>: assign a field
  of its own copy, which the manager never sees, or mutate what a field refers to
  (\<open>r.history.push(x)\<close>, \<open>r.metadata.refundReason = v\<close>), which happens in the store.
  An assignment into a metadata value that cannot be written changes nothing.
\<close>

definition caller_push_history :: "escrow \<Rightarrow> hist_entry \<Rightarrow> manager \<Rightarrow> manager" where
  "caller_push_history r x m = m\<lparr> hist_heap := (hist_heap m)(history r := hist_heap m (history r) @ [x]) \<rparr>"

definition caller_set_refundReason :: "escrow \<Rightarrow> string \<Rightarrow> manager \<Rightarrow> manager" where
  "caller_set_refundReason r v m =
     (if writable (meta_heap m (metadata r))
      then m\<lparr> meta_heap := (meta_heap m)(metadata r :=
                (meta_heap m (metadata r))\<lparr> refundReason := Some v \<rparr>) \<rparr>
      else m)"

text \<open>
  A caller's own object enters the store when it is made, before it is handed to
  \<open>create\<close> as \<open>config.metadata\<close>.
\<close>

definition caller_new_metadata :: "metadata \<Rightarrow> manager \<Rightarrow> ref \<times> manager" where
  "caller_new_metadata d m =
     (next_ref m, m\<lparr> meta_heap := (meta_heap m)(next_ref m := d), next_ref := Suc (next_ref m) \<rparr>)"

text \<open>The history array and the metadata object of the manager's own record of an escrow.\<close>

definition history_of :: "manager \<Rightarrow> string \<Rightarrow> hist_entry list option" where
  "history_of m i = map_option (\<lambda>e. hist_heap m (history e)) (map_of (escrows m) i)"

definition metadata_of :: "manager \<Rightarrow> string \<Rightarrow> metadata option" where
  "metadata_of m i = map_option (\<lambda>e. meta_heap m (metadata e)) (map_of (escrows m) i)"

subsection \<open>Concrete wallets and escrows\<close>

definition demo_wallet :: wallet where
  "demo_wallet =
     \<lparr> createInvoice = (\<lambda>a d x. Inr \<lparr> inv_invoice = ''lnbc500n1mock'', inv_paymentHash = Some ''hash1'' \<rparr>),
       payInvoice = (\<lambda>b. Inr \<lparr> preimage = Some ''def456'' \<rparr>),
       payAddress = (\<lambda>a n c. Inr \<lparr> preimage = Some ''ghi789'' \<rparr>),
       waitForPayment = (\<lambda>h t. Inr \<lparr> result_paid = True \<rparr>) \<rparr>"

text \<open>A wallet that cannot pay and never sees a payment arrive.\<close>

definition failing_wallet :: wallet where
  "failing_wallet =
     \<lparr> createInvoice = (\<lambda>a d x. Inl ''relay down''),
       payInvoice = (\<lambda>b. Inl ''relay down''),
       payAddress = (\<lambda>a n c. Inl ''relay down''),
       waitForPayment = (\<lambda>h t. Inr \<lparr> result_paid = False \<rparr>) \<rparr>"

definition demo_config :: create_config where
  "demo_config =
     \<lparr> c_amountSats = Some 500, c_workerAddress = Some ''worker@x'', c_workerInvoice = None,
       c_description = Some ''Test work'', c_deadlineMs = Some 60000, c_clientPubkey = None,
       c_workerPubkey = None, c_metadata = None \<rparr>"

definition no_opts :: fund_opts where
  "no_opts = \<lparr> autoDetect = None, timeoutMs = None \<rparr>"

definition manual_opts :: fund_opts where
  "manual_opts = \<lparr> autoDetect = Some False, timeoutMs = None \<rparr>"

text \<open>The escrow \<open>create\<close> builds from \<open>demo_config\<close> at time 1000 with id \<open>e1\<close>.\<close>

definition demo_escrow :: escrow where
  "demo_escrow =
     \<lparr> escrow_id = ''e1'', state = CREATED, amountSats = 500,
       description = Some ''Test work'', workerAddress = Some ''worker@x'', workerInvoice = None,
       clientPubkey = None, workerPubkey = None, metadata = 0, invoice = ''lnbc500n1mock'',
       paymentHash = Some ''hash1'', deadline = 61000, createdAt = 1000, updatedAt = 1000,
       fundedAt = None, deliveredAt = None, releasedAt = None, refundedAt = None,
       deliveryProof = None, releasePreimage = None, refundAddress = None, history = 1 \<rparr>"

text \<open>An observer that returns.\<close>

definition quiet_observer :: "string \<Rightarrow> escrow_state \<Rightarrow> escrow_state \<Rightarrow> string option" where
  "quiet_observer i old new = None"

definition m_created :: manager where
  "m_created =
     snd (create demo_wallet ''e1'' 1000 1001 (createEscrowManager (Some quiet_observer) None)
            demo_config)"

definition m_funded :: manager where
  "m_funded = snd (fund demo_wallet 2000 m_created ''e1'' no_opts)"

definition m_delivered :: manager where
  "m_delivered = snd (deliver 3000 m_funded ''e1'' ''sha256ofwork'')"

definition m_released :: manager where
  "m_released = snd (release demo_wallet 4000 m_delivered ''e1'')"

definition m_expired :: manager where
  "m_expired = deadline_fire 61000 m_created ''e1''"

definition m_disputed :: manager where
  "m_disputed = snd (dispute_op 2500 m_funded ''e1'' ''Work quality insufficient'' ''client'')"

text \<open>
  An escrow \<open>e2\<close> whose metadata is an object the caller froze
  (\<open>metadata: Object.freeze({})\<close>), created and funded.
\<close>

definition frozen_object :: metadata where
  "frozen_object = \<lparr> refundReason = None, dispute = None, extra = [], writable = False \<rparr>"

definition m_frozen_start :: manager where
  "m_frozen_start = snd (caller_new_metadata frozen_object (createEscrowManager None None))"

definition frozen_config :: create_config where
  "frozen_config =
     \<lparr> c_amountSats = Some 500, c_workerAddress = Some ''worker@x'', c_workerInvoice = None,
       c_description = Some ''Test work'', c_deadlineMs = Some 60000, c_clientPubkey = None,
       c_workerPubkey = None,
       c_metadata = Some (fst (caller_new_metadata frozen_object (createEscrowManager None None))) \<rparr>"

definition m_frozen_created :: manager where
  "m_frozen_created = snd (create demo_wallet ''e2'' 1000 1001 m_frozen_start frozen_config)"

definition m_frozen_funded :: manager where
  "m_frozen_funded = snd (fund demo_wallet 2000 m_frozen_created ''e2'' no_opts)"

text \<open>The escrow \<open>e2\<close> as it is in \<open>m_frozen_funded\<close>.\<close>

definition frozen_escrow :: escrow where
  "frozen_escrow =
     \<lparr> escrow_id = ''e2'', state = FUNDED, amountSats = 500,
       description = Some ''Test work'', workerAddress = Some ''worker@x'', workerInvoice = None,
       clientPubkey = None, workerPubkey = None, metadata = 0, invoice = ''lnbc500n1mock'',
       paymentHash = Some ''hash1'', deadline = 61000, createdAt = 1000, updatedAt = 2000,
       fundedAt = Some 2000, deliveredAt = None, releasedAt = None, refundedAt = None,
       deliveryProof = None, releasePreimage = None, refundAddress = None, history = 1 \<rparr>"


text \<open>A manager that holds, under a given id, an escrow in a given state.\<close>

definition m_in :: "string \<Rightarrow> escrow_state \<Rightarrow> manager" where
  "m_in i s = put_escrow i (demo_escrow\<lparr> state := s \<rparr>) m_created"

subsection \<open>Streaming\<close>



subsection \<open>Concrete providers and streams\<close>

text \<open>A stand-in for the digest, for concrete runs.\<close>

definition demo_hash :: "string \<Rightarrow> string" where
  "demo_hash p = ''sha256:'' @ p"

definition no_sessions :: provider where
  "no_sessions =
     \<lparr> session_obj = (\<lambda>_. \<lparr> session_id = [], batchIndex = 0, totalTokens = 0, totalSats = 0,
                             pendingPayment = None, paid = {}, closed = False \<rparr>),
       session_keys = {} \<rparr>"

text \<open>Two tokens a batch, two sats a batch, and two and a half seconds to pay.\<close>

definition demo_provider :: provider_config where
  "demo_provider =
     createStreamProvider \<lparr> o_satsPerBatch = Some 2, o_tokensPerBatch = Some 2,
       o_maxBatches = Some 10, o_paymentTimeoutMs = Some 2500, o_invoiceExpiryS = None \<rparr>"

text \<open>The configuration of claim C6.\<close>

definition capped_provider :: provider_config where
  "capped_provider =
     createStreamProvider \<lparr> o_satsPerBatch = None, o_tokensPerBatch = Some 50,
       o_maxBatches = Some 1, o_paymentTimeoutMs = None, o_invoiceExpiryS = None \<rparr>"

text \<open>
  Surroundings in which nobody pays: the wallet makes the invoice, never reports it paid,
  and no proof is POSTed.
\<close>

definition nobody_pays :: stream_env where
  "nobody_pays =
     \<lparr> invoice_for = (\<lambda>n. Inr \<lparr> inv_invoice = ''lnbc2n1mock'',
                                  inv_paymentHash = Some (demo_hash ''c0ffee'') \<rparr>),
       rounds_for = (\<lambda>n k. \<lparr> lag = 0, posts_during_wallet = [], wallet_reply = Inr False,
                              posts_during_sleep = [] \<rparr>) \<rparr>"

text \<open>The session \<open>s1\<close> as the run below leaves it.\<close>

definition paused_session :: session where
  "paused_session =
     \<lparr> session_id = ''s1'', batchIndex = 1, totalTokens = 2, totalSats = 0,
       pendingPayment = Some \<lparr> pp_paymentHash = Some (demo_hash ''c0ffee''), pp_batchIndex = 2,
                                pp_invoice = ''lnbc2n1mock'' \<rparr>,
       paid = {}, closed = True \<rparr>"




section \<open>Properties of the escrow manager\<close>

subsection \<open>Auxiliary facts\<close>

lemmas demo_values =
  demo_wallet_def failing_wallet_def demo_config_def no_opts_def manual_opts_def quiet_observer_def

lemma map_of_update_same: "map_of (AList.update k v al) k = Some v"
  by (simp add: update_conv')

lemma transition_known:
  "map_of (escrows m) i = Some e \<Longrightarrow>
   transition now m i s =
     ((case observer m of
         None \<Rightarrow> Inr (e\<lparr> state := s, updatedAt := now \<rparr>)
       | Some onStateChange \<Rightarrow>
           (case onStateChange i (state e) s of
              None \<Rightarrow> Inr (e\<lparr> state := s, updatedAt := now \<rparr>)
            | Some msg \<Rightarrow> Inl (ObserverThrew msg))),
      m\<lparr> escrows := AList.update i (e\<lparr> state := s, updatedAt := now \<rparr>) (escrows m),
         hist_heap := (hist_heap m)(history e :=
            hist_heap m (history e) @ [\<lparr> h_from = Some (state e), h_to = s, h_at = now \<rparr>]),
         notified := (if observer m \<noteq> None then notified m @ [(i, state e, s)] else notified m) \<rparr>)"
  by (simp add: transition_def Let_def split: option.splits)

lemma update_escrow_known:
  "map_of (escrows m) i = Some e \<Longrightarrow>
   update_escrow i f m = m\<lparr> escrows := AList.update i (f e) (escrows m) \<rparr>"
  by (simp add: update_escrow_def)

lemma lookup_m_created: "map_of (escrows m_created) ''e1'' = Some demo_escrow"
  by (simp add: m_created_def create_def createEscrowManager_def startDeadlineTimer_def
      put_escrow_def log_call_def or_null_def ceil_div_1000_def demo_values demo_escrow_def
      map_of_update_same Let_def)

lemma observer_m_created: "observer m_created = Some quiet_observer"
  by (simp add: m_created_def create_def createEscrowManager_def startDeadlineTimer_def
      put_escrow_def log_call_def or_null_def ceil_div_1000_def demo_values demo_escrow_def
      map_of_update_same Let_def)

lemma writable_m_created: "writable (meta_heap m_created 0)"
  by (simp add: m_created_def create_def createEscrowManager_def startDeadlineTimer_def
      put_escrow_def log_call_def or_null_def ceil_div_1000_def demo_values demo_escrow_def
      map_of_update_same Let_def)

lemma lookup_m_funded:
  "map_of (escrows m_funded) ''e1'' =
     Some (demo_escrow\<lparr> state := FUNDED, updatedAt := 2000, fundedAt := Some 2000 \<rparr>)"
  by (simp add: m_funded_def fund_def fund_begin_def fund_resume_def fund_commit_def
      lookup_m_created observer_m_created demo_escrow_def demo_values log_call_def
      update_escrow_known transition_known map_of_update_same Let_def)

lemma observer_m_funded: "observer m_funded = Some quiet_observer"
  by (simp add: m_funded_def fund_def fund_begin_def fund_resume_def fund_commit_def
      lookup_m_created observer_m_created demo_escrow_def demo_values log_call_def
      update_escrow_known transition_known map_of_update_same Let_def)

lemma writable_m_funded: "writable (meta_heap m_funded 0)"
  by (simp add: m_funded_def fund_def fund_begin_def fund_resume_def fund_commit_def
      lookup_m_created observer_m_created writable_m_created demo_escrow_def demo_values
      log_call_def update_escrow_known transition_known map_of_update_same Let_def)

lemma lookup_m_delivered:
  "map_of (escrows m_delivered) ''e1'' =
     Some (demo_escrow\<lparr> state := DELIVERED, updatedAt := 3000, fundedAt := Some 2000,
             deliveredAt := Some 3000, deliveryProof := Some ''sha256ofwork'' \<rparr>)"
  by (simp add: m_delivered_def deliver_def lookup_m_funded observer_m_funded demo_escrow_def
      update_escrow_known transition_known map_of_update_same Let_def)

lemma observer_m_delivered: "observer m_delivered = Some quiet_observer"
  by (simp add: m_delivered_def deliver_def lookup_m_funded observer_m_funded demo_escrow_def
      update_escrow_known transition_known map_of_update_same Let_def)

lemma lookup_m_released:
  "map_of (escrows m_released) ''e1'' =
     Some (demo_escrow\<lparr> state := RELEASED, updatedAt := 4000, fundedAt := Some 2000,
             deliveredAt := Some 3000, releasedAt := Some 4000,
             deliveryProof := Some ''sha256ofwork'', releasePreimage := Some ''ghi789'' \<rparr>)"
  by (simp add: m_released_def release_def release_begin_def release_resume_def
      lookup_m_delivered observer_m_delivered demo_escrow_def demo_values log_call_def
      cancel_timer_def update_escrow_known transition_known map_of_update_same Let_def)

lemma lookup_m_expired:
  "map_of (escrows m_expired) ''e1'' = Some (demo_escrow\<lparr> state := EXPIRED, updatedAt := 61000 \<rparr>)"
  by (simp add: m_expired_def deadline_fire_def lookup_m_created observer_m_created
      demo_escrow_def demo_values transition_known map_of_update_same Let_def)

lemma observer_m_expired: "observer m_expired = Some quiet_observer"
  by (simp add: m_expired_def deadline_fire_def lookup_m_created observer_m_created
      demo_escrow_def demo_values transition_known map_of_update_same Let_def)

lemma writable_m_expired: "writable (meta_heap m_expired 0)"
  by (simp add: m_expired_def deadline_fire_def lookup_m_created observer_m_created
      writable_m_created demo_escrow_def demo_values transition_known map_of_update_same Let_def)

lemma lookup_m_disputed:
  "map_of (escrows m_disputed) ''e1'' =
     Some (demo_escrow\<lparr> state := DISPUTED, updatedAt := 2500, fundedAt := Some 2000 \<rparr>)"
  by (simp add: m_disputed_def dispute_op_def lookup_m_funded observer_m_funded writable_m_funded
      demo_escrow_def demo_values transition_known map_of_update_same Let_def)

lemma observer_m_disputed: "observer m_disputed = Some quiet_observer"
  by (simp add: m_disputed_def dispute_op_def lookup_m_funded observer_m_funded writable_m_funded
      demo_escrow_def demo_values transition_known map_of_update_same Let_def)

lemma writable_m_disputed: "writable (meta_heap m_disputed 0)"
  by (simp add: m_disputed_def dispute_op_def lookup_m_funded observer_m_funded writable_m_funded
      demo_escrow_def demo_values transition_known map_of_update_same Let_def)

lemma lookup_m_in: "map_of (escrows (m_in i s)) i = Some (demo_escrow\<lparr> state := s \<rparr>)"
  by (simp add: m_in_def put_escrow_def map_of_update_same)

lemma observer_m_in: "observer (m_in i s) = Some quiet_observer"
  by (simp add: m_in_def put_escrow_def observer_m_created)

lemma writable_m_in: "writable (meta_heap (m_in i s) 0)"
  by (simp add: m_in_def put_escrow_def writable_m_created)

subsection \<open>The transitions each operation makes\<close>

lemma perform_fund:
  assumes "get m i = Some e" and "perform W now m i (Fund opts) = (ok, m')"
  shows "\<exists>e'. get m' i = Some e'
           \<and> (state e' = state e \<or> (state e, state e') \<in> set (code_table (Fund opts)))
           \<and> (ok \<longrightarrow> (state e, state e') \<in> set (code_table (Fund opts)))"
  using assms
  by (auto simp: get_def fund_def fund_begin_def fund_resume_def fund_commit_def log_call_def
      update_escrow_known transition_known map_of_update_same Let_def
      split: if_splits sum.splits option.splits)

lemma perform_deliver:
  assumes "get m i = Some e" and "perform W now m i (Deliver dp) = (ok, m')"
  shows "\<exists>e'. get m' i = Some e'
           \<and> (state e' = state e \<or> (state e, state e') \<in> set (code_table (Deliver dp)))
           \<and> (ok \<longrightarrow> (state e, state e') \<in> set (code_table (Deliver dp)))"
  using assms
  by (auto simp: get_def deliver_def update_escrow_known transition_known map_of_update_same
      Let_def split: if_splits sum.splits option.splits)

lemma perform_release:
  assumes "get m i = Some e" and "perform W now m i Release = (ok, m')"
  shows "\<exists>e'. get m' i = Some e'
           \<and> (state e' = state e \<or> (state e, state e') \<in> set (code_table Release))
           \<and> (ok \<longrightarrow> (state e, state e') \<in> set (code_table Release))"
  using assms
  by (auto simp: get_def release_def release_begin_def release_resume_def cancel_timer_def
      log_call_def update_escrow_known transition_known map_of_update_same Let_def
      split: if_splits sum.splits option.splits)

lemma perform_refund:
  assumes "get m i = Some e" and "perform W now m i (Refund addr reason) = (ok, m')"
  shows "\<exists>e'. get m' i = Some e'
           \<and> (state e' = state e \<or> (state e, state e') \<in> set (code_table (Refund addr reason)))
           \<and> (ok \<longrightarrow> (state e, state e') \<in> set (code_table (Refund addr reason)))"
  using assms
  by (cases "state e")
     (auto simp: get_def refund_def refund_begin_def refund_resume_def refund_commit_def
        cancel_timer_def log_call_def update_escrow_known transition_known map_of_update_same
        Let_def split: if_splits sum.splits option.splits)

lemma perform_dispute:
  assumes "get m i = Some e" and "perform W now m i (Dispute reason who) = (ok, m')"
  shows "\<exists>e'. get m' i = Some e'
           \<and> (state e' = state e \<or> (state e, state e') \<in> set (code_table (Dispute reason who)))
           \<and> (ok \<longrightarrow> (state e, state e') \<in> set (code_table (Dispute reason who)))"
  using assms
  by (cases "state e")
     (auto simp: get_def dispute_op_def transition_known map_of_update_same Let_def
        split: if_splits sum.splits option.splits)

lemma perform_deadline:
  assumes "get m i = Some e" and "perform W now m i Deadline = (ok, m')"
  shows "\<exists>e'. get m' i = Some e'
           \<and> (state e' = state e \<or> (state e, state e') \<in> set (code_table Deadline))
           \<and> (ok \<longrightarrow> (state e, state e') \<in> set (code_table Deadline))"
  using assms
  by (auto simp: get_def state_of_def deadline_fire_def transition_known map_of_update_same
      Let_def split: if_splits sum.splits option.splits)

lemma perform_table:
  assumes "get m i = Some e" and "perform W now m i op = (ok, m')"
  shows "\<exists>e'. get m' i = Some e'
           \<and> (state e' = state e \<or> (state e, state e') \<in> set (code_table op))
           \<and> (ok \<longrightarrow> (state e, state e') \<in> set (code_table op))"
proof (cases op)
  case (Fund opts)
  have "perform W now m i (Fund opts) = (ok, m')" using assms(2) by (simp only: Fund)
  from perform_fund [OF assms(1) this] show ?thesis by (simp only: Fund)
next
  case (Deliver dp)
  have "perform W now m i (Deliver dp) = (ok, m')" using assms(2) by (simp only: Deliver)
  from perform_deliver [OF assms(1) this] show ?thesis by (simp only: Deliver)
next
  case Release
  have "perform W now m i Release = (ok, m')" using assms(2) by (simp only: Release)
  from perform_release [OF assms(1) this] show ?thesis by (simp only: Release)
next
  case (Refund addr reason)
  have "perform W now m i (Refund addr reason) = (ok, m')" using assms(2) by (simp only: Refund)
  from perform_refund [OF assms(1) this] show ?thesis by (simp only: Refund)
next
  case (Dispute reason who)
  have "perform W now m i (Dispute reason who) = (ok, m')" using assms(2) by (simp only: Dispute)
  from perform_dispute [OF assms(1) this] show ?thesis by (simp only: Dispute)
next
  case Deadline
  have "perform W now m i Deadline = (ok, m')" using assms(2) by (simp only: Deadline)
  from perform_deadline [OF assms(1) this] show ?thesis by (simp only: Deadline)
qed

lemma code_table_settled: "(RELEASED, s') \<notin> set (code_table op) \<and> (REFUNDED, s') \<notin> set (code_table op)"
  by (cases op) simp_all

lemma spec_table_in_code:
  assumes "(s, s') \<in> set spec_table"
  shows "\<exists>op. (s, s') \<in> set (code_table op)"
proof -
  from assms have
    "(s, s') \<in> set (code_table (Fund no_opts)) \<or> (s, s') \<in> set (code_table (Deliver []))
     \<or> (s, s') \<in> set (code_table Release) \<or> (s, s') \<in> set (code_table (Refund None None))
     \<or> (s, s') \<in> set (code_table (Dispute [] [])) \<or> (s, s') \<in> set (code_table Deadline)"
    by (auto simp: spec_table_def)
  then show ?thesis by blast
qed

lemma realise:
  assumes "(s, s') \<in> set (code_table op)"
  shows "fst (perform demo_wallet now (m_in i s) i op)
       \<and> state_of (snd (perform demo_wallet now (m_in i s) i op)) i = Some s'"
  using assms lookup_m_in [of i s] observer_m_in [of i s] writable_m_in [of i s]
  by (cases op)
     (auto simp: state_of_def get_def fund_def fund_begin_def fund_resume_def fund_commit_def
        deliver_def release_def release_begin_def release_resume_def refund_def refund_begin_def
        refund_resume_def refund_commit_def dispute_op_def deadline_fire_def cancel_timer_def
        log_call_def update_escrow_known transition_known map_of_update_same Let_def
        demo_wallet_def demo_escrow_def quiet_observer_def)

text \<open>
  Claim C1, as the code has it, for an operation that runs from its start to its end with
  nothing else running on the escrow in between (fund, deliver, release, refund, dispute, or
  the deadline timer firing). The escrow is still there afterwards, and its state is either
  what it was or the state the code's table gives for that operation; when the operation
  went through, the pair (state before, state after) is in that table. On an escrow that is
  RELEASED or REFUNDED nothing goes through and the state stays. Every pair of the
  specification's table is permitted: some operation, wallet and manager go through with it.
  The code's table is the specification's table, except that the guards of refund and
  dispute turn away RELEASED and REFUNDED only.
\<close>

theorem escrow_transitions_code_table:
  assumes "get m i = Some e" and "perform W now m i op = (ok, m')"
  shows "(\<exists>e'. get m' i = Some e'
            \<and> (state e' = state e \<or> (state e, state e') \<in> set (code_table op))
            \<and> (ok \<longrightarrow> (state e, state e') \<in> set (code_table op)))
       \<and> (state e = RELEASED \<or> state e = REFUNDED \<longrightarrow> \<not> ok \<and> state_of m' i = Some (state e))
       \<and> (\<forall>s s'. (s, s') \<in> set spec_table \<longrightarrow>
            (\<exists>op0 W0 m0. state_of m0 i = Some s \<and> fst (perform W0 now m0 i op0)
                         \<and> state_of (snd (perform W0 now m0 i op0)) i = Some s'))"
proof -
  from perform_table [OF assms] obtain e' where
    e': "get m' i = Some e'"
        "state e' = state e \<or> (state e, state e') \<in> set (code_table op)"
        "ok \<longrightarrow> (state e, state e') \<in> set (code_table op)"
    by blast
  have settled: "state e = RELEASED \<or> state e = REFUNDED \<longrightarrow> \<not> ok \<and> state_of m' i = Some (state e)"
    using e' code_table_settled [of "state e'" op] by (auto simp: state_of_def)
  have each: "\<exists>op0 W0 m0. state_of m0 i = Some s \<and> fst (perform W0 now m0 i op0)
                \<and> state_of (snd (perform W0 now m0 i op0)) i = Some s'"
    if "(s, s') \<in> set spec_table" for s s'
  proof -
    from spec_table_in_code [OF that] obtain op0 where op0: "(s, s') \<in> set (code_table op0)"
      by blast
    have "state_of (m_in i s) i = Some s"
      by (simp add: state_of_def get_def lookup_m_in)
    with realise [OF op0, of now i] show ?thesis by blast
  qed
  from e' settled each show ?thesis by blast
qed

theorem escrow_transitions_code_table_witness:
  "state_of m_funded ''e1'' = Some FUNDED
   \<and> fst (perform demo_wallet 4000 m_funded ''e1'' Release)
   \<and> state_of (snd (perform demo_wallet 4000 m_funded ''e1'' Release)) ''e1'' = Some RELEASED
   \<and> (FUNDED, RELEASED) \<in> set (code_table Release)"
proof -
  have g: "get m_funded ''e1'' =
             Some (demo_escrow\<lparr> state := FUNDED, updatedAt := 2000, fundedAt := Some 2000 \<rparr>)"
    by (simp add: get_def lookup_m_funded)
  have p: "perform demo_wallet 4000 m_funded ''e1'' Release =
             (fst (perform demo_wallet 4000 m_funded ''e1'' Release),
              snd (perform demo_wallet 4000 m_funded ''e1'' Release))"
    by simp
  have ok: "fst (perform demo_wallet 4000 m_funded ''e1'' Release)"
    by (simp add: release_def release_begin_def release_resume_def lookup_m_funded
        observer_m_funded demo_escrow_def demo_wallet_def quiet_observer_def log_call_def
        cancel_timer_def update_escrow_known transition_known map_of_update_same Let_def)
  from escrow_transitions_code_table [OF g p] ok show ?thesis
    by (auto simp: state_of_def g demo_escrow_def)
qed

text \<open>
  Claim C1 as the specification states it fails. Refund and dispute also go through on an
  escrow that is CREATED, EXPIRED or DISPUTED: none of the six pairs is in the
  specification's table, and two of them leave EXPIRED, which it calls terminal. And an
  operation that is overlapped is not held to any table: fund awaits the wallet and does
  not look at the state again, so when the timer fires during the await the escrow goes
  from EXPIRED to FUNDED.
\<close>

theorem refund_and_dispute_counterexample:
  "state_of m_created ''e1'' = Some CREATED
   \<and> state_of m_expired ''e1'' = Some EXPIRED
   \<and> state_of m_disputed ''e1'' = Some DISPUTED
   \<and> fst (perform demo_wallet 70000 m_created ''e1'' (Refund (Some ''client@x'') None))
   \<and> state_of (snd (perform demo_wallet 70000 m_created ''e1''
                      (Refund (Some ''client@x'') None))) ''e1'' = Some REFUNDED
   \<and> fst (perform demo_wallet 70000 m_expired ''e1'' (Refund (Some ''client@x'') None))
   \<and> state_of (snd (perform demo_wallet 70000 m_expired ''e1''
                      (Refund (Some ''client@x'') None))) ''e1'' = Some REFUNDED
   \<and> fst (perform demo_wallet 70000 m_disputed ''e1'' (Refund (Some ''client@x'') None))
   \<and> state_of (snd (perform demo_wallet 70000 m_disputed ''e1''
                      (Refund (Some ''client@x'') None))) ''e1'' = Some REFUNDED
   \<and> fst (perform demo_wallet 70000 m_created ''e1'' (Dispute ''late'' ''client''))
   \<and> state_of (snd (perform demo_wallet 70000 m_created ''e1''
                      (Dispute ''late'' ''client''))) ''e1'' = Some DISPUTED
   \<and> fst (perform demo_wallet 70000 m_expired ''e1'' (Dispute ''late'' ''client''))
   \<and> state_of (snd (perform demo_wallet 70000 m_expired ''e1''
                      (Dispute ''late'' ''client''))) ''e1'' = Some DISPUTED
   \<and> fst (perform demo_wallet 70000 m_disputed ''e1'' (Dispute ''late'' ''client''))
   \<and> state_of (snd (perform demo_wallet 70000 m_disputed ''e1''
                      (Dispute ''late'' ''client''))) ''e1'' = Some DISPUTED
   \<and> (CREATED, REFUNDED) \<notin> set spec_table \<and> (EXPIRED, REFUNDED) \<notin> set spec_table
   \<and> (DISPUTED, REFUNDED) \<notin> set spec_table \<and> (CREATED, DISPUTED) \<notin> set spec_table
   \<and> (EXPIRED, DISPUTED) \<notin> set spec_table \<and> (DISPUTED, DISPUTED) \<notin> set spec_table
   \<and> fst (fund_begin 2000 m_created ''e1'' no_opts) = Awaiting (''hash1'', 60000)
   \<and> state_of (deadline_fire 61000 (snd (fund_begin 2000 m_created ''e1'' no_opts)) ''e1'') ''e1''
       = Some EXPIRED
   \<and> fst (fund_resume 61500
             (deadline_fire 61000 (snd (fund_begin 2000 m_created ''e1'' no_opts)) ''e1'')
             ''e1'' (Inr \<lparr> result_paid = True \<rparr>))
       = Inr (demo_escrow\<lparr> state := FUNDED, updatedAt := 61500, fundedAt := Some 61500 \<rparr>)
   \<and> state_of (snd (fund_resume 61500
                      (deadline_fire 61000 (snd (fund_begin 2000 m_created ''e1'' no_opts)) ''e1'')
                      ''e1'' (Inr \<lparr> result_paid = True \<rparr>))) ''e1''
       = Some FUNDED
   \<and> (EXPIRED, FUNDED) \<notin> set spec_table"
  by (simp add: state_of_def get_def refund_def refund_begin_def refund_resume_def
      refund_commit_def dispute_op_def fund_begin_def fund_resume_def fund_commit_def
      deadline_fire_def no_opts_def lookup_m_created lookup_m_expired lookup_m_disputed
      observer_m_created observer_m_expired observer_m_disputed writable_m_created
      writable_m_expired writable_m_disputed demo_escrow_def demo_wallet_def quiet_observer_def
      log_call_def cancel_timer_def update_escrow_known transition_known map_of_update_same
      spec_table_def Let_def)

subsection \<open>Rejections leave the manager as it was\<close>

text \<open>
  Claim C2. On an escrow that is RELEASED or REFUNDED, each of release, refund, fund and
  deliver throws an error of the class StateConflictError, and the manager afterwards is
  the manager before: the escrow's state, every other field, its history and its metadata.
\<close>

theorem settled_escrow_rejects:
  assumes "get m i = Some e" and "state e = RELEASED \<or> state e = REFUNDED"
  shows "(\<exists>err. fst (release W now m i) = Inl err \<and> class_of err = StateConflictError)
       \<and> snd (release W now m i) = m
       \<and> (\<exists>err. fst (refund W now m i addr reason) = Inl err \<and> class_of err = StateConflictError)
       \<and> snd (refund W now m i addr reason) = m
       \<and> (\<exists>err. fst (fund W now m i opts) = Inl err \<and> class_of err = StateConflictError)
       \<and> snd (fund W now m i opts) = m
       \<and> (\<exists>err. fst (deliver now m i dp) = Inl err \<and> class_of err = StateConflictError)
       \<and> snd (deliver now m i dp) = m"
  using assms
  by (auto simp: get_def release_def release_begin_def refund_def refund_begin_def fund_def
      fund_begin_def deliver_def)

theorem settled_escrow_rejects_witness:
  "state_of m_released ''e1'' = Some RELEASED
   \<and> release demo_wallet 5000 m_released ''e1'' = (Inl (CannotRelease RELEASED), m_released)
   \<and> refund demo_wallet 5000 m_released ''e1'' (Some ''client@x'') None
       = (Inl CannotRefundReleased, m_released)
   \<and> fund demo_wallet 5000 m_released ''e1'' no_opts = (Inl (CannotFund RELEASED), m_released)
   \<and> deliver 5000 m_released ''e1'' ''late'' = (Inl (CannotDeliver RELEASED), m_released)"
proof -
  let ?e = "demo_escrow\<lparr> state := RELEASED, updatedAt := 4000, fundedAt := Some 2000,
             deliveredAt := Some 3000, releasedAt := Some 4000,
             deliveryProof := Some ''sha256ofwork'', releasePreimage := Some ''ghi789'' \<rparr>"
  have g: "get m_released ''e1'' = Some ?e"
    by (simp add: get_def lookup_m_released)
  have st: "state ?e = RELEASED \<or> state ?e = REFUNDED"
    by simp
  from settled_escrow_rejects [OF g st, of demo_wallet 5000 "Some ''client@x''" None no_opts "''late''"]
  show ?thesis
    by (auto simp: state_of_def g release_def release_begin_def refund_def refund_begin_def
        fund_def fund_begin_def deliver_def lookup_m_released prod_eq_iff)
qed

subsection \<open>The deadline timer\<close>

text \<open>
  Claim C8. When the timer of an escrow fires and the escrow is neither CREATED nor FUNDED,
  nothing changes but the timer's own entry, which is deleted: no escrow differs, no
  history array has a new entry, the observer is not called. When the escrow is CREATED or
  FUNDED, it becomes EXPIRED, its history gains the entry for that transition, and the
  observer, when there is one, is called with it.
\<close>

theorem deadline_fire_guard:
  assumes "get m i = Some e"
  shows "(state e \<noteq> CREATED \<and> state e \<noteq> FUNDED \<longrightarrow>
            deadline_fire now m i = m\<lparr> timers := timers m - {i} \<rparr>
          \<and> escrows (deadline_fire now m i) = escrows m
          \<and> hist_heap (deadline_fire now m i) = hist_heap m
          \<and> meta_heap (deadline_fire now m i) = meta_heap m
          \<and> notified (deadline_fire now m i) = notified m)
       \<and> (state e = CREATED \<or> state e = FUNDED \<longrightarrow>
            get (deadline_fire now m i) i = Some (e\<lparr> state := EXPIRED, updatedAt := now \<rparr>)
          \<and> history_of (deadline_fire now m i) i =
              Some (hist_heap m (history e) @ [\<lparr> h_from = Some (state e), h_to = EXPIRED, h_at = now \<rparr>])
          \<and> notified (deadline_fire now m i) =
              (if observer m \<noteq> None then notified m @ [(i, state e, EXPIRED)] else notified m))"
  using assms
  by (auto simp: get_def deadline_fire_def transition_known history_of_def map_of_update_same
      Let_def split: option.splits)

theorem deadline_fire_guard_witness:
  "state_of m_released ''e1'' = Some RELEASED
   \<and> deadline_fire 61000 m_released ''e1'' = m_released\<lparr> timers := timers m_released - {''e1''} \<rparr>
   \<and> state_of (deadline_fire 61000 m_released ''e1'') ''e1'' = Some RELEASED
   \<and> state_of m_created ''e1'' = Some CREATED
   \<and> state_of (deadline_fire 61000 m_created ''e1'') ''e1'' = Some EXPIRED"
proof -
  let ?e = "demo_escrow\<lparr> state := RELEASED, updatedAt := 4000, fundedAt := Some 2000,
             deliveredAt := Some 3000, releasedAt := Some 4000,
             deliveryProof := Some ''sha256ofwork'', releasePreimage := Some ''ghi789'' \<rparr>"
  have g: "get m_released ''e1'' = Some ?e"
    by (simp add: get_def lookup_m_released)
  have g': "get m_created ''e1'' = Some demo_escrow"
    by (simp add: get_def lookup_m_created)
  have a: "deadline_fire 61000 m_released ''e1'' = m_released\<lparr> timers := timers m_released - {''e1''} \<rparr>"
    using deadline_fire_guard [OF g, of 61000] by (simp add: demo_escrow_def)
  have b: "get (deadline_fire 61000 m_created ''e1'') ''e1''
             = Some (demo_escrow\<lparr> state := EXPIRED, updatedAt := 61000 \<rparr>)"
    using deadline_fire_guard [OF g', of 61000] by (simp add: demo_escrow_def)
  have c: "state_of (deadline_fire 61000 m_released ''e1'') ''e1'' = Some RELEASED"
    by (simp add: a state_of_def get_def lookup_m_released)
  from a b c show ?thesis
    by (simp add: state_of_def g g' demo_escrow_def)
qed

subsection \<open>Funding without detection\<close>

text \<open>
  Claim C10. fund with \<open>autoDetect: false\<close> on an escrow that is CREATED leaves the escrow
  FUNDED, whatever the wallet is: nothing is awaited, no call is made to the wallet, so the
  result does not depend on it, and nothing checks that the funding invoice was paid. The
  call returns the funded escrow, or throws what the observer threw after the transition.
\<close>

theorem fund_without_detection:
  assumes "get m i = Some e" and "state e = CREATED" and "autoDetect opts = Some False"
  shows "get (snd (fund W now m i opts)) i
           = Some (e\<lparr> fundedAt := Some now, state := FUNDED, updatedAt := now \<rparr>)
       \<and> state_of (snd (fund W now m i opts)) i = Some FUNDED
       \<and> wallet_calls (snd (fund W now m i opts)) = wallet_calls m
       \<and> fund W now m i opts = fund W' now m i opts
       \<and> fund_begin now m i opts
           = (Finished (fst (fund W now m i opts)), snd (fund W now m i opts))
       \<and> fst (fund W now m i opts)
           = (case observer m of
                None \<Rightarrow> Inr (e\<lparr> fundedAt := Some now, state := FUNDED, updatedAt := now \<rparr>)
              | Some onStateChange \<Rightarrow>
                  (case onStateChange i CREATED FUNDED of
                     None \<Rightarrow> Inr (e\<lparr> fundedAt := Some now, state := FUNDED, updatedAt := now \<rparr>)
                   | Some msg \<Rightarrow> Inl (ObserverThrew msg)))"
  using assms
  by (auto simp: get_def state_of_def fund_def fund_begin_def fund_commit_def update_escrow_known
      transition_known map_of_update_same Let_def split: option.splits)

theorem fund_without_detection_witness:
  "state_of m_created ''e1'' = Some CREATED
   \<and> state_of (snd (fund failing_wallet 2000 m_created ''e1'' manual_opts)) ''e1'' = Some FUNDED
   \<and> wallet_calls (snd (fund failing_wallet 2000 m_created ''e1'' manual_opts)) = wallet_calls m_created
   \<and> fst (fund failing_wallet 2000 m_created ''e1'' manual_opts)
       = Inr (demo_escrow\<lparr> fundedAt := Some 2000, state := FUNDED, updatedAt := 2000 \<rparr>)"
proof -
  have g: "get m_created ''e1'' = Some demo_escrow"
    by (simp add: get_def lookup_m_created)
  have c: "state demo_escrow = CREATED"
    by (simp add: demo_escrow_def)
  have o: "autoDetect manual_opts = Some False"
    by (simp add: manual_opts_def)
  from fund_without_detection [OF g c o, of failing_wallet 2000] show ?thesis
    by (simp add: state_of_def g c observer_m_created quiet_observer_def)
qed

subsection \<open>What get and list hand out\<close>

text \<open>
  Claim C7 fails on the nested objects. The object \<open>get\<close> returns, and the objects
  \<open>list\<close> returns, carry the same history array and the same metadata object as the
  manager's own record: what a caller pushes on the returned \<open>history\<close>, or assigns in
  the returned \<open>metadata\<close> (when it can be written), is then in the manager's record of
  that escrow.
\<close>

theorem returned_copy_shares_nested_objects:
  assumes "get m i = Some r"
  shows "history_of (caller_push_history r x m) i = map_option (\<lambda>h. h @ [x]) (history_of m i)
       \<and> metadata_of (caller_set_refundReason r v m) i
           = map_option (\<lambda>d. if writable d then d\<lparr> refundReason := Some v \<rparr> else d) (metadata_of m i)
       \<and> r \<in> set (list_escrows m None) \<and> r \<in> set (list_escrows m (Some (state r)))"
  using assms
  by (auto simp: get_def history_of_def metadata_of_def caller_push_history_def
      caller_set_refundReason_def list_escrows_def dest: map_of_SomeD intro: rev_image_eqI)

theorem returned_copy_shares_nested_objects_witness:
  "get m_created ''e1'' = Some demo_escrow
   \<and> history_of m_created ''e1'' = Some [\<lparr> h_from = None, h_to = CREATED, h_at = 1000 \<rparr>]
   \<and> history_of (caller_push_history demo_escrow
                    \<lparr> h_from = Some CREATED, h_to = RELEASED, h_at = 0 \<rparr> m_created) ''e1''
       = Some [\<lparr> h_from = None, h_to = CREATED, h_at = 1000 \<rparr>,
               \<lparr> h_from = Some CREATED, h_to = RELEASED, h_at = 0 \<rparr>]"
proof -
  have g: "get m_created ''e1'' = Some demo_escrow"
    by (simp add: get_def lookup_m_created)
  have h: "history_of m_created ''e1'' = Some [\<lparr> h_from = None, h_to = CREATED, h_at = 1000 \<rparr>]"
    by (simp add: history_of_def lookup_m_created)
       (simp add: m_created_def create_def createEscrowManager_def startDeadlineTimer_def
          put_escrow_def log_call_def or_null_def ceil_div_1000_def demo_values demo_escrow_def
          map_of_update_same Let_def)
  from returned_copy_shares_nested_objects [OF g,
         of "\<lparr> h_from = Some CREATED, h_to = RELEASED, h_at = 0 \<rparr>"] g h
  show ?thesis by simp
qed

subsection \<open>A wallet call and the transition after it\<close>

text \<open>
  What holds of the three operations that await the wallet, whatever ran during the await.
  A rejected payment, and a funding invoice reported unpaid, end the operation with no
  write at all. A resolved payment always takes release to RELEASED, and a confirmed
  funding always takes fund to FUNDED.
\<close>

lemma release_resume_rejected:
  "release_resume now m i (Inl msg) = (Inl (PayFailure msg), m)"
  by (simp add: release_resume_def)

lemma refund_resume_rejected:
  "refund_resume now m i addr reason (Inl msg) = (Inl (PayFailure msg), m)"
  by (simp add: refund_resume_def)

lemma fund_resume_unpaid:
  "fund_resume now m i (Inl msg) = (Inl (WalletFailure msg), m)
   \<and> fund_resume now m i (Inr \<lparr> result_paid = False \<rparr>) = (Inl PaymentNotReceived, m)"
  by (simp add: fund_resume_def)

lemma release_resume_resolved:
  assumes "get m i = Some e"
  shows "get (snd (release_resume now m i (Inr r))) i
           = Some (e\<lparr> releasePreimage := preimage r, releasedAt := Some now, state := RELEASED,
                      updatedAt := now \<rparr>)"
  using assms
  by (simp add: get_def release_resume_def cancel_timer_def update_escrow_known transition_known
      map_of_update_same)

lemma fund_resume_paid:
  assumes "get m i = Some e"
  shows "get (snd (fund_resume now m i (Inr \<lparr> result_paid = True \<rparr>))) i
           = Some (e\<lparr> fundedAt := Some now, state := FUNDED, updatedAt := now \<rparr>)"
  using assms
  by (simp add: get_def fund_resume_def fund_commit_def update_escrow_known transition_known
      map_of_update_same)

lemma refund_resume_resolved_writable:
  assumes "get m i = Some e" and "writable (meta_heap m (metadata e))"
  shows "state_of (snd (refund_resume now m i addr reason (Inr r))) i = Some REFUNDED"
  using assms
  by (simp add: get_def state_of_def refund_resume_def refund_commit_def cancel_timer_def
      update_escrow_known transition_known map_of_update_same Let_def)

lemma lookup_m_frozen_created:
  "map_of (escrows m_frozen_created) ''e2''
     = Some (frozen_escrow\<lparr> state := CREATED, updatedAt := 1000, fundedAt := None \<rparr>)"
  by (simp add: m_frozen_created_def m_frozen_start_def frozen_config_def caller_new_metadata_def
      create_def createEscrowManager_def startDeadlineTimer_def put_escrow_def log_call_def
      or_null_def ceil_div_1000_def demo_values frozen_escrow_def map_of_update_same Let_def)

lemma observer_m_frozen_created: "observer m_frozen_created = None"
  by (simp add: m_frozen_created_def m_frozen_start_def frozen_config_def caller_new_metadata_def
      create_def createEscrowManager_def startDeadlineTimer_def put_escrow_def log_call_def
      or_null_def ceil_div_1000_def demo_values frozen_escrow_def map_of_update_same Let_def)

lemma metadata_m_frozen_created: "meta_heap m_frozen_created 0 = frozen_object"
  by (simp add: m_frozen_created_def m_frozen_start_def frozen_config_def caller_new_metadata_def
      create_def createEscrowManager_def startDeadlineTimer_def put_escrow_def log_call_def
      or_null_def ceil_div_1000_def demo_values frozen_escrow_def map_of_update_same Let_def)

lemma lookup_m_frozen_funded: "map_of (escrows m_frozen_funded) ''e2'' = Some frozen_escrow"
  by (simp add: m_frozen_funded_def fund_def fund_begin_def fund_resume_def fund_commit_def
      lookup_m_frozen_created observer_m_frozen_created frozen_escrow_def demo_values
      log_call_def update_escrow_known transition_known map_of_update_same Let_def)

lemma observer_m_frozen_funded: "observer m_frozen_funded = None"
  by (simp add: m_frozen_funded_def fund_def fund_begin_def fund_resume_def fund_commit_def
      lookup_m_frozen_created observer_m_frozen_created frozen_escrow_def demo_values
      log_call_def update_escrow_known transition_known map_of_update_same Let_def)

lemma metadata_m_frozen_funded: "meta_heap m_frozen_funded 0 = frozen_object"
  by (simp add: m_frozen_funded_def fund_def fund_begin_def fund_resume_def fund_commit_def
      lookup_m_frozen_created observer_m_frozen_created metadata_m_frozen_created
      frozen_escrow_def demo_values log_call_def update_escrow_known transition_known
      map_of_update_same Let_def)

text \<open>
  Claim C3 fails for refund. On an escrow whose metadata object cannot be written (here
  one the caller froze), refund pays the refund address, the wallet resolves the payment,
  \<open>refundAddress\<close> and \<open>refundedAt\<close> are written, and then the assignment of
  \<open>refundReason\<close> throws: the escrow stays FUNDED with two fields changed. The payment
  happened and the transition did not.
\<close>

theorem refund_paid_without_transition:
  "state_of m_frozen_funded ''e2'' = Some FUNDED
   \<and> fst (refund_begin 3000 m_frozen_funded ''e2'' (Some ''client@x'') (Some ''no-show''))
       = Awaiting (PayAddress ''client@x'' 500 ''Escrow refund: no-show'')
   \<and> wallet_pay demo_wallet (PayAddress ''client@x'' 500 ''Escrow refund: no-show'')
       = Inr \<lparr> preimage = Some ''ghi789'' \<rparr>
   \<and> fst (refund demo_wallet 3000 m_frozen_funded ''e2'' (Some ''client@x'') (Some ''no-show''))
       = Inl MetadataNotWritable
   \<and> wallet_calls (snd (refund demo_wallet 3000 m_frozen_funded ''e2'' (Some ''client@x'')
                          (Some ''no-show'')))
       = wallet_calls m_frozen_funded @ [Pay (PayAddress ''client@x'' 500 ''Escrow refund: no-show'')]
   \<and> get (snd (refund demo_wallet 3000 m_frozen_funded ''e2'' (Some ''client@x'')
                 (Some ''no-show''))) ''e2''
       = Some (frozen_escrow\<lparr> refundAddress := Some ''client@x'', refundedAt := Some 3000 \<rparr>)
   \<and> state_of (snd (refund demo_wallet 3000 m_frozen_funded ''e2'' (Some ''client@x'')
                      (Some ''no-show''))) ''e2'' = Some FUNDED
   \<and> get (snd (refund demo_wallet 3000 m_frozen_funded ''e2'' (Some ''client@x'')
                 (Some ''no-show''))) ''e2'' \<noteq> get m_frozen_funded ''e2''"
  by (simp add: state_of_def get_def refund_def refund_begin_def refund_resume_def
      refund_commit_def lookup_m_frozen_funded observer_m_frozen_funded metadata_m_frozen_funded
      frozen_object_def frozen_escrow_def demo_wallet_def log_call_def update_escrow_known
      map_of_update_same Let_def)

section \<open>Properties of the streaming provider and client\<close>

subsection \<open>Auxiliary facts\<close>

lemma handlePayment_accepts:
  "fst (handlePayment H P body) = Unlocked200 \<longleftrightarrow>
     (\<exists>sid p s pp. body = Post (Some sid) (JStr p) \<and> p \<noteq> [] \<and> sessions_get P sid = Some s
        \<and> pendingPayment s = Some pp \<and> Some (H p) = pp_paymentHash pp)"
  by (auto simp: handlePayment_def split: proof_post.splits option.splits js_value.splits if_splits)

lemma handlePayment_effect:
  "\<forall>sid p s pp. body = Post (Some sid) (JStr p) \<and> p \<noteq> [] \<and> sessions_get P sid = Some s
         \<and> pendingPayment s = Some pp \<and> Some (H p) = pp_paymentHash pp \<longrightarrow>
           snd (handlePayment H P body) =
             update_session sid
               (\<lambda>s. s\<lparr> paid := insert (pp_batchIndex pp) (paid s), pendingPayment := None \<rparr>) P
         \<and> paid (session_obj (snd (handlePayment H P body)) sid) = insert (pp_batchIndex pp) (paid s)
         \<and> pendingPayment (session_obj (snd (handlePayment H P body)) sid) = None"
  by (auto simp: handlePayment_def sessions_get_def update_session_def split: if_splits)

lemma handlePayment_rejects:
  "fst (handlePayment H P body) \<noteq> Unlocked200 \<Longrightarrow> snd (handlePayment H P body) = P"
  by (auto simp: handlePayment_def split: proof_post.splits option.splits js_value.splits if_splits)

lemma paused_run:
  "handleRequest demo_provider demo_hash nobody_pays (Some False) ''s1'' [''a'', ''b'', ''c''] None
     no_sessions
   = (\<lparr> session_obj = (session_obj no_sessions)(''s1'' := paused_session),
         session_keys = {''s1''} \<rparr>,
      \<lparr> events = [SessionEv ''s1'', ContentEv ''ab'' 1 2,
                  InvoiceEv ''lnbc2n1mock'' (Some (demo_hash ''c0ffee'')) 2 2,
                  PausedEv ''payment_timeout'' 1 0
                    ''POST with { sessionId: \"s1\", preimage: \"...\" }'',
                  DoneEv ''complete'' 1 0 2],
         writableEnded = True \<rparr>)"
  by (simp add: handleRequest_def demo_provider_def createStreamProvider_def nobody_pays_def
      no_sessions_def paused_session_def flush_batch_def update_session_def sendSSE_def
      done_event_def waitForPayment_session_def wait_loop.simps after_loop_def Let_def
      numeral_2_eq_2)

lemma handleRequest_closes:
  "closed (session_obj (fst (handleRequest cfg H env fbf sid tokens gen_err P)) sid)"
  by (simp add: handleRequest_def update_session_def Let_def split: prod.splits)

lemma produce_fills:
  assumes "tokensPerBatch cfg = 50" and "maxBatches cfg = 1"
  shows "\<not> closed (session_obj (prov st) sid) \<Longrightarrow> batchIndex (session_obj (prov st) sid) = 0 \<Longrightarrow>
         tokenCount st + n = 50 \<Longrightarrow> 0 < n \<Longrightarrow> n \<le> length ts \<Longrightarrow>
         produce cfg H env fbf sid ge ts st =
           (Normal,
            (let st1 = st\<lparr> buffer := buffer st @ concat (take n ts), tokenCount := 50 \<rparr>;
                 st2 = (flush_batch sid st1)\<lparr> buffer := [], tokenCount := 0 \<rparr>
             in st2\<lparr> res := sendSSE (res st2)
                               (done_event ''max_batches'' (session_obj (prov st2) sid)) \<rparr>))"
proof (induction ts arbitrary: st n)
  case Nil
  then show ?case by simp
next
  case (Cons t ts)
  from Cons.prems obtain k where n: "n = Suc k" by (cases n) auto
  show ?case
  proof (cases k)
    case 0
    with n Cons.prems assms show ?thesis
      by (simp add: Let_def flush_batch_def update_session_def)
  next
    case (Suc j)
    let ?st1 = "st\<lparr> buffer := buffer st @ t, tokenCount := tokenCount st + 1 \<rparr>"
    from n Suc Cons.prems have small: "\<not> int (tokenCount ?st1) \<ge> 50" by simp
    have step: "produce cfg H env fbf sid ge (t # ts) st = produce cfg H env fbf sid ge ts ?st1"
      using Cons.prems(1) small assms by (simp add: Let_def)
    have "produce cfg H env fbf sid ge ts ?st1 =
           (Normal,
            (let st1 = ?st1\<lparr> buffer := buffer ?st1 @ concat (take k ts), tokenCount := 50 \<rparr>;
                 st2 = (flush_batch sid st1)\<lparr> buffer := [], tokenCount := 0 \<rparr>
             in st2\<lparr> res := sendSSE (res st2)
                               (done_event ''max_batches'' (session_obj (prov st2) sid)) \<rparr>))"
      using Cons.prems n Suc by (intro Cons.IH) simp_all
    with step n show ?thesis by simp
  qed
qed

lemma capped_run:
  assumes "tokensPerBatch cfg = 50" and "maxBatches cfg = 1" and "50 \<le> length tokens"
  shows "events (snd (handleRequest cfg H env fbf sid tokens gen_err P)) =
           [SessionEv sid, ContentEv (concat (take 50 tokens)) 1 50,
            DoneEv ''max_batches'' 1 0 50, DoneEv ''complete'' 1 0 50]"
proof -
  let ?new = "\<lparr> session_id = sid, batchIndex = 0, totalTokens = 0, totalSats = 0,
                 pendingPayment = None, paid = {}, closed = False \<rparr>"
  let ?st0 = "\<lparr> prov = P\<lparr> session_obj := (session_obj P)(sid := ?new),
                             session_keys := insert sid (session_keys P) \<rparr>,
                 res = sendSSE \<lparr> events = [], writableEnded = False \<rparr> (SessionEv sid),
                 buffer = [], tokenCount = 0 \<rparr>"
  have "produce cfg H env (fbf \<noteq> Some False) sid gen_err tokens ?st0 =
           (Normal,
            (let st1 = ?st0\<lparr> buffer := buffer ?st0 @ concat (take 50 tokens), tokenCount := 50 \<rparr>;
                 st2 = (flush_batch sid st1)\<lparr> buffer := [], tokenCount := 0 \<rparr>
             in st2\<lparr> res := sendSSE (res st2)
                               (done_event ''max_batches'' (session_obj (prov st2) sid)) \<rparr>))"
    using assms by (intro produce_fills) simp_all
  then show ?thesis
    by (simp add: handleRequest_def Let_def flush_batch_def update_session_def sendSSE_def
        done_event_def after_loop_def)
qed














subsection \<open>Proofs of payment\<close>

text \<open>
  Claim C4. A proof of payment is accepted (answer 200 with \<open>batchUnlocked\<close>) exactly when
  it names a session of the Map, that session has a pending payment, the preimage is a
  non-empty string and its digest equals the pending payment's hash. On acceptance the
  pending batch index joins the session's \<open>paid\<close> set and \<open>pendingPayment\<close> is cleared. In
  every other case (unknown session, nothing pending, preimage missing or empty, a digest
  that differs, a body that does not parse) the provider's state is unchanged. \<open>H\<close> stands
  for the digest the code computes, SHA-256 of the hex-decoded preimage.
\<close>

theorem proof_accepted_iff:
  "(fst (handlePayment H P body) = Unlocked200 \<longleftrightarrow>
      (\<exists>sid p s pp. body = Post (Some sid) (JStr p) \<and> p \<noteq> [] \<and> sessions_get P sid = Some s
         \<and> pendingPayment s = Some pp \<and> Some (H p) = pp_paymentHash pp))
   \<and> (\<forall>sid p s pp. body = Post (Some sid) (JStr p) \<and> p \<noteq> [] \<and> sessions_get P sid = Some s
         \<and> pendingPayment s = Some pp \<and> Some (H p) = pp_paymentHash pp \<longrightarrow>
           snd (handlePayment H P body) =
             update_session sid
               (\<lambda>s. s\<lparr> paid := insert (pp_batchIndex pp) (paid s), pendingPayment := None \<rparr>) P
         \<and> paid (session_obj (snd (handlePayment H P body)) sid) = insert (pp_batchIndex pp) (paid s)
         \<and> pendingPayment (session_obj (snd (handlePayment H P body)) sid) = None)
   \<and> (fst (handlePayment H P body) \<noteq> Unlocked200 \<longrightarrow> snd (handlePayment H P body) = P)"
  apply (intro conjI)
    apply (rule handlePayment_accepts)
   apply (rule handlePayment_effect)
  apply (rule impI)
  apply (erule handlePayment_rejects)
  done

theorem proof_accepted_iff_witness:
  "fst (handlePayment demo_hash
          \<lparr> session_obj = (session_obj no_sessions)(''s1'' := paused_session), session_keys = {''s1''} \<rparr>
          (Post (Some ''s1'') (JStr ''c0ffee''))) = Unlocked200
   \<and> paid (session_obj (snd (handlePayment demo_hash
          \<lparr> session_obj = (session_obj no_sessions)(''s1'' := paused_session), session_keys = {''s1''} \<rparr>
          (Post (Some ''s1'') (JStr ''c0ffee'')))) ''s1'') = {2}
   \<and> fst (handlePayment demo_hash
          \<lparr> session_obj = (session_obj no_sessions)(''s1'' := paused_session), session_keys = {''s1''} \<rparr>
          (Post (Some ''s1'') (JStr ''beef''))) = InvalidPreimage400
   \<and> snd (handlePayment demo_hash
          \<lparr> session_obj = (session_obj no_sessions)(''s1'' := paused_session), session_keys = {''s1''} \<rparr>
          (Post (Some ''s1'') (JStr ''beef'')))
       = \<lparr> session_obj = (session_obj no_sessions)(''s1'' := paused_session), session_keys = {''s1''} \<rparr>"
proof -
  let ?P = "\<lparr> session_obj = (session_obj no_sessions)(''s1'' := paused_session),
               session_keys = {''s1''} \<rparr>"
  have ok: "fst (handlePayment demo_hash ?P (Post (Some ''s1'') (JStr ''c0ffee''))) = Unlocked200"
    by (simp add: handlePayment_def sessions_get_def paused_session_def demo_hash_def)
  have pd: "paid (session_obj (snd (handlePayment demo_hash ?P (Post (Some ''s1'') (JStr ''c0ffee'')))) ''s1'') = {2}"
    by (simp add: handlePayment_def sessions_get_def update_session_def paused_session_def demo_hash_def)
  have bad: "fst (handlePayment demo_hash ?P (Post (Some ''s1'') (JStr ''beef''))) = InvalidPreimage400"
    by (simp add: handlePayment_def sessions_get_def paused_session_def demo_hash_def)
  from proof_accepted_iff [of demo_hash ?P "Post (Some ''s1'') (JStr ''beef'')"]
  have "fst (handlePayment demo_hash ?P (Post (Some ''s1'') (JStr ''beef''))) \<noteq> Unlocked200 \<longrightarrow>
        snd (handlePayment demo_hash ?P (Post (Some ''s1'') (JStr ''beef''))) = ?P"
    by (rule conjunct2 [OF conjunct2])
  with bad have same: "snd (handlePayment demo_hash ?P (Post (Some ''s1'') (JStr ''beef''))) = ?P"
    by simp
  from ok pd bad same show ?thesis by (intro conjI)
qed

subsection \<open>The producer loop and the client's budget\<close>

text \<open>
  Claim C5 fails. On every path \<open>handleRequest\<close> ends with the session closed. When the
  wait for a payment times out (here: two tokens a batch, no free batch, nobody pays for
  2.5 seconds), the provider sends \<open>paused\<close>, leaves the loop, and then sends
  \<open>done\<close> with reason \<open>complete\<close> and closes the session.
\<close>

theorem payment_timeout_closes_session:
  "closed (session_obj (fst (handleRequest cfg H env fbf sid tokens gen_err P)) sid)
   \<and> events (snd (handleRequest demo_provider demo_hash nobody_pays (Some False) ''s1''
                     [''a'', ''b'', ''c''] None no_sessions))
       = [SessionEv ''s1'', ContentEv ''ab'' 1 2,
          InvoiceEv ''lnbc2n1mock'' (Some (demo_hash ''c0ffee'')) 2 2,
          PausedEv ''payment_timeout'' 1 0 ''POST with { sessionId: \"s1\", preimage: \"...\" }'',
          DoneEv ''complete'' 1 0 2]
   \<and> session_obj (fst (handleRequest demo_provider demo_hash nobody_pays (Some False) ''s1''
                          [''a'', ''b'', ''c''] None no_sessions)) ''s1'' = paused_session
   \<and> closed paused_session"
  by (simp add: handleRequest_closes paused_run paused_session_def)

text \<open>
  Claim C6 fails on the number of \<open>done\<close> events. With 50 tokens a batch and at most one
  batch, every stream of at least 50 tokens is answered by the session event, one content
  event with the first 50 tokens, no invoice, and two \<open>done\<close> events: reason
  \<open>max_batches\<close>, then reason \<open>complete\<close>.
\<close>

theorem capped_stream_events:
  assumes "tokensPerBatch cfg = 50" and "maxBatches cfg = 1" and "50 \<le> length tokens"
  shows "events (snd (handleRequest cfg H env fbf sid tokens gen_err P)) =
           [SessionEv sid, ContentEv (concat (take 50 tokens)) 1 50,
            DoneEv ''max_batches'' 1 0 50, DoneEv ''complete'' 1 0 50]"
  using assms by (rule capped_run)

theorem capped_stream_events_witness:
  "tokensPerBatch capped_provider = 50 \<and> maxBatches capped_provider = 1
   \<and> 50 \<le> length (replicate 50 ''x'')
   \<and> events (snd (handleRequest capped_provider demo_hash nobody_pays None ''s1''
                     (replicate 50 ''x'') None no_sessions))
       = [SessionEv ''s1'', ContentEv (concat (replicate 50 ''x'')) 1 50,
          DoneEv ''max_batches'' 1 0 50, DoneEv ''complete'' 1 0 50]"
proof -
  have a: "tokensPerBatch capped_provider = 50"
    by (simp add: capped_provider_def createStreamProvider_def)
  have b: "maxBatches capped_provider = 1"
    by (simp add: capped_provider_def createStreamProvider_def)
  have c: "50 \<le> length (replicate 50 ''x'')"
    by simp
  from capped_stream_events [OF a b c, of demo_hash nobody_pays None "''s1''" None no_sessions] a b c
  show ?thesis by simp
qed





end
